theory Spec2Isabelle
  imports Complex_Main "HOL-Library.Word" "HOL-Library.Sublist"
begin

unbundle bit_operations_syntax

section \<open>Floating-point values\<close>

text \<open>
  A numpy float is a finite number, one of the two infinities, or not-a-number.
  The operations follow IEEE 754 on the special values. Finite results are exact
  real numbers: rounding to 32 or 64 bits and overflow to infinity are outside
  this model, so \<open>np.float32(v)\<close> is the identity. Zero is unsigned; a zero divisor
  counts as \<open>+0\<close>, which is what a difference of two equal numbers yields.
\<close>

datatype fl = Fin real | PInf | MInf | NaN

fun isnan :: "fl \<Rightarrow> bool" where
  "isnan NaN = True"
| "isnan _ = False"

fun fneg :: "fl \<Rightarrow> fl" where
  "fneg (Fin a) = Fin (- a)"
| "fneg PInf = MInf"
| "fneg MInf = PInf"
| "fneg NaN = NaN"

fun fadd :: "fl \<Rightarrow> fl \<Rightarrow> fl" where
  "fadd NaN _ = NaN"
| "fadd _ NaN = NaN"
| "fadd (Fin a) (Fin b) = Fin (a + b)"
| "fadd PInf MInf = NaN"
| "fadd MInf PInf = NaN"
| "fadd PInf _ = PInf"
| "fadd _ PInf = PInf"
| "fadd MInf _ = MInf"
| "fadd _ MInf = MInf"

definition fsub :: "fl \<Rightarrow> fl \<Rightarrow> fl" where
  "fsub a b = fadd a (fneg b)"

text \<open>The sign of an infinite product or quotient, from the sign of the finite operand.\<close>

definition signed_inf :: "bool \<Rightarrow> fl" where
  "signed_inf positive = (if positive then PInf else MInf)"

fun fmul :: "fl \<Rightarrow> fl \<Rightarrow> fl" where
  "fmul NaN _ = NaN"
| "fmul _ NaN = NaN"
| "fmul (Fin a) (Fin b) = Fin (a * b)"
| "fmul PInf (Fin b) = (if b = 0 then NaN else signed_inf (0 < b))"
| "fmul MInf (Fin b) = (if b = 0 then NaN else signed_inf (b < 0))"
| "fmul (Fin a) PInf = (if a = 0 then NaN else signed_inf (0 < a))"
| "fmul (Fin a) MInf = (if a = 0 then NaN else signed_inf (a < 0))"
| "fmul PInf PInf = PInf"
| "fmul MInf MInf = PInf"
| "fmul PInf MInf = MInf"
| "fmul MInf PInf = MInf"

fun fdiv :: "fl \<Rightarrow> fl \<Rightarrow> fl" where
  "fdiv NaN _ = NaN"
| "fdiv _ NaN = NaN"
| "fdiv (Fin a) (Fin b) =
     (if b = 0 then (if a = 0 then NaN else signed_inf (0 < a)) else Fin (a / b))"
| "fdiv (Fin a) PInf = Fin 0"
| "fdiv (Fin a) MInf = Fin 0"
| "fdiv PInf (Fin b) = signed_inf (0 \<le> b)"
| "fdiv MInf (Fin b) = signed_inf (b < 0)"
| "fdiv PInf PInf = NaN"
| "fdiv PInf MInf = NaN"
| "fdiv MInf PInf = NaN"
| "fdiv MInf MInf = NaN"

text \<open>\<open>fgt a b\<close> is the comparison \<open>a > b\<close>: false as soon as one side is not-a-number.\<close>

fun fgt :: "fl \<Rightarrow> fl \<Rightarrow> bool" where
  "fgt NaN _ = False"
| "fgt _ NaN = False"
| "fgt (Fin a) (Fin b) = (b < a)"
| "fgt PInf PInf = False"
| "fgt MInf MInf = False"
| "fgt PInf _ = True"
| "fgt _ PInf = False"
| "fgt MInf _ = False"
| "fgt _ MInf = True"

definition flt :: "fl \<Rightarrow> fl \<Rightarrow> bool" where
  "flt a b = fgt b a"

fun fabs :: "fl \<Rightarrow> fl" where
  "fabs (Fin a) = Fin \<bar>a\<bar>"
| "fabs PInf = PInf"
| "fabs MInf = PInf"
| "fabs NaN = NaN"

fun flog :: "fl \<Rightarrow> fl" where
  "flog (Fin a) = (if 0 < a then Fin (ln a) else if a = 0 then MInf else NaN)"
| "flog PInf = PInf"
| "flog MInf = NaN"
| "flog NaN = NaN"

fun fcos :: "fl \<Rightarrow> fl" where
  "fcos (Fin a) = Fin (cos a)"
| "fcos _ = NaN"

definition deg2rad :: "fl \<Rightarrow> fl" where
  "deg2rad a = fmul a (Fin (pi / 180))"

section \<open>Errors, labelled arrays and the opened file\<close>

datatype error =
    KeyError string
  | ValueError string
  | ZeroDivisionError

text \<open>
  A two-dimensional \<open>xarray.DataArray\<close>: the names of its two dimensions (outer
  axis first), the coordinate vectors it carries, and its values as a list of rows
  along the outer axis. The attributes of an array (\<open>ds.attrs\<close>) are not part of the
  model.
\<close>

record 'a dataarray =
  dims :: "string list"
  coords :: "string \<rightharpoonup> real list"
  vals :: "'a list list"

text \<open>
  The opened netCDF file \<open>self.nc\<close>. Its variables are kept by the type of their
  elements: two-dimensional float variables, zero-dimensional (scalar) variables and
  the unsigned byte bitmasks. \<open>nc_coords\<close> is \<open>self.nc.coords\<close>: the coordinate vector
  of every dimension of the file (xarray gives a dimension that has no coordinate
  variable the default index \<open>0, ..., n - 1\<close>).
\<close>

record dataset =
  variables :: "string \<rightharpoonup> fl dataarray"
  scalars :: "string \<rightharpoonup> fl"
  bitmasks :: "string \<rightharpoonup> 8 word dataarray"
  nc_coords :: "string \<rightharpoonup> real list"

datatype variant = Easy | Full

datatype calibration = Counts | Radiance | Reflectance | Brightness_temperature

fun calibration_name :: "calibration \<Rightarrow> string" where
  "calibration_name Counts = ''counts''"
| "calibration_name Radiance = ''radiance''"
| "calibration_name Reflectance = ''reflectance''"
| "calibration_name Brightness_temperature = ''brightness_temperature''"

text \<open>
  The file handler: \<open>variant\<close> says which of the two subclasses it is
  (\<open>FiduceoMviriEasyFcdrFileHandler\<close> or \<open>FiduceoMviriFullFcdrFileHandler\<close>).
\<close>

record handler =
  variant :: variant
  nc :: dataset
  mask_bad_quality :: bool
  projection_longitude :: fl

text \<open>\<open>d[k]\<close> on a dictionary or on the file: a missing key raises \<open>KeyError\<close>.\<close>

definition getitem :: "(string \<rightharpoonup> 'v) \<Rightarrow> string \<Rightarrow> error + 'v" where
  "getitem d k = (case d k of None \<Rightarrow> Inl (KeyError k) | Some v \<Rightarrow> Inr v)"

text \<open>Sequencing of calls that may raise: the first error is the result.\<close>

definition and_then :: "error + 'a \<Rightarrow> ('a \<Rightarrow> error + 'b) \<Rightarrow> error + 'b" where
  "and_then m f = (case m of Inl e \<Rightarrow> Inl e | Inr x \<Rightarrow> f x)"

text \<open>Elementwise operations of a labelled array: \<open>f(ds)\<close> and \<open>ds.where(cond(ds), nan)\<close>.\<close>

definition map_vals :: "('a \<Rightarrow> 'b) \<Rightarrow> 'a dataarray \<Rightarrow> 'b dataarray" where
  "map_vals f ds =
     \<lparr>dims = dims ds, coords = coords ds, vals = map (map f) (vals ds)\<rparr>"

definition where_nan :: "(fl \<Rightarrow> bool) \<Rightarrow> fl dataarray \<Rightarrow> fl dataarray" where
  "where_nan cond ds = map_vals (\<lambda>v. if cond v then v else NaN) ds"

text \<open>
  Arithmetic between two arrays of the same grid, elementwise by position. xarray
  aligns the operands by their coordinate labels first; the operands met here carry
  the coordinates of one file grid, for which that alignment is the identity.
  Operands of different shapes raise \<open>ValueError\<close>.
\<close>

definition zip_vals ::
  "('a \<Rightarrow> 'b \<Rightarrow> 'c) \<Rightarrow> 'a dataarray \<Rightarrow> 'b dataarray \<Rightarrow> error + 'c dataarray" where
  "zip_vals f ds other =
     (if map length (vals ds) = map length (vals other)
      then Inr \<lparr>dims = dims ds, coords = coords ds,
                vals = map2 (map2 f) (vals ds) (vals other)\<rparr>
      else Inl (ValueError ''operands could not be broadcast together''))"

text \<open>The sizes of the two dimensions, and \<open>ds.sizes[d]\<close>.\<close>

definition sizes :: "'a dataarray \<Rightarrow> nat list" where
  "sizes ds = [length (vals ds), (case vals ds of [] \<Rightarrow> 0 | row # _ \<Rightarrow> length row)]"

definition dim_size :: "'a dataarray \<Rightarrow> string \<rightharpoonup> nat" where
  "dim_size ds = map_of (zip (dims ds) (sizes ds))"

text \<open>
  \<open>ds.coords[d].size\<close>: the length of the coordinate vector; a dimension without a
  coordinate vector has the default index \<open>0, ..., n - 1\<close> of its size; any other name
  raises \<open>KeyError\<close>.
\<close>

definition coord_size :: "'a dataarray \<Rightarrow> string \<Rightarrow> error + nat" where
  "coord_size ds d =
     (case coords ds d of Some c \<Rightarrow> Inr (length c)
      | None \<Rightarrow> (case dim_size ds d of Some n \<Rightarrow> Inr n | None \<Rightarrow> Inl (KeyError d)))"

text \<open>
  \<open>ds.rename(name_dict)\<close> renames dimensions and coordinates at once. It raises
  \<open>ValueError\<close> when an old name is neither a dimension nor a coordinate of \<open>ds\<close>,
  and when a new name is already taken.
\<close>

definition rename :: "(string \<times> string) list \<Rightarrow> 'a dataarray \<Rightarrow> error + 'a dataarray" where
  "rename name_dict ds =
     (if \<exists>(old, new) \<in> set name_dict. old \<notin> set (dims ds) \<and> coords ds old = None
      then Inl (ValueError ''cannot rename: not a variable or dimension'')
      else if \<exists>(old, new) \<in> set name_dict. new \<in> set (dims ds) \<or> coords ds new \<noteq> None
      then Inl (ValueError ''cannot rename: the new name already exists'')
      else Inr (ds\<lparr>
        dims := map (\<lambda>d. case map_of name_dict d of None \<Rightarrow> d | Some new \<Rightarrow> new) (dims ds),
        coords := (\<lambda>k. case find (\<lambda>(old, new). new = k) name_dict of
                          Some (old, new) \<Rightarrow> coords ds old
                        | None \<Rightarrow> if k \<in> fst ` set name_dict then None else coords ds k)\<rparr>))"

text \<open>
  \<open>ds.assign_coords(new_coords)\<close>: every new coordinate must name a dimension of \<open>ds\<close>
  and have that dimension's size, otherwise \<open>ValueError\<close>.
\<close>

definition assign_coords ::
  "(string \<times> real list) list \<Rightarrow> 'a dataarray \<Rightarrow> error + 'a dataarray" where
  "assign_coords new_coords ds =
     (if \<forall>(d, c) \<in> set new_coords. dim_size ds d = Some (length c)
      then Inr (ds\<lparr>coords := (\<lambda>k. case map_of new_coords k of
                                      Some c \<Rightarrow> Some c | None \<Rightarrow> coords ds k)\<rparr>)
      else Inl (ValueError ''conflicting sizes for dimension''))"

text \<open>\<open>values[::step]\<close>: every \<open>step\<close>-th element, starting with the first.\<close>

fun every_nth :: "nat \<Rightarrow> 'a list \<Rightarrow> 'a list" where
  "every_nth step [] = []"
| "every_nth step (x # xs) = x # every_nth step (drop (step - 1) xs)"

definition slice_step :: "'a list \<Rightarrow> nat \<Rightarrow> error + 'a list" where
  "slice_step xs step =
     (if step = 0 then Inl (ValueError ''slice step cannot be zero'')
      else Inr (every_nth step xs))"

text \<open>Python's floor division of two sizes.\<close>

definition floordiv :: "nat \<Rightarrow> nat \<Rightarrow> error + nat" where
  "floordiv n m = (if m = 0 then Inl ZeroDivisionError else Inr (n div m))"

section \<open>Reading a dataset\<close>

definition HIGH_RESOL :: int where
  "HIGH_RESOL = 2250"

definition is_high_resol :: "handler \<Rightarrow> int \<Rightarrow> bool" where
  "is_high_resol self resolution = (resolution = HIGH_RESOL)"

text \<open>The class attribute \<open>nc_keys\<close>: the base class's entries and the subclass's \<open>VIS\<close>.\<close>

definition nc_keys :: "handler \<Rightarrow> (string \<rightharpoonup> string)" where
  "nc_keys self =
     [''WV'' \<mapsto> ''count_wv'', ''IR'' \<mapsto> ''count_ir'',
      ''VIS'' \<mapsto> (case variant self of
                    Easy \<Rightarrow> ''toa_bidirectional_reflectance_vis''
                  | Full \<Rightarrow> ''count_vis'')]"

definition get_nc_key :: "handler \<Rightarrow> string \<Rightarrow> string" where
  "get_nc_key self ds_name = (case nc_keys self ds_name of Some k \<Rightarrow> k | None \<Rightarrow> ds_name)"

text \<open>
  \<open>_read_dataset\<close>; \<open>store\<close> selects the variables of the file by their element type
  (\<open>variables\<close> or \<open>bitmasks\<close>).
\<close>

definition read_dataset ::
  "handler \<Rightarrow> (dataset \<Rightarrow> (string \<rightharpoonup> 'a dataarray)) \<Rightarrow> string \<Rightarrow> error + 'a dataarray" where
  "read_dataset self store name =
     (let nc_key = get_nc_key self name in
      and_then (getitem (store (nc self)) nc_key) (\<lambda>ds.
      if ''y_ir_wv'' \<in> set (dims ds) then
        rename [(''y_ir_wv'', ''y''), (''x_ir_wv'', ''x'')] ds
      else if ''y_tie'' \<in> set (dims ds) then
        rename [(''y_tie'', ''y''), (''x_tie'', ''x'')] ds
      else if ''y'' \<in> set (dims ds) \<and> coords ds ''y'' = None then
        and_then (getitem (nc_coords (nc self)) ''y'') (\<lambda>y.
        and_then (getitem (nc_coords (nc self)) ''x'') (\<lambda>x.
        assign_coords [(''y'', y), (''x'', x)] ds))
      else Inr ds))"

section \<open>Calibration of the IR and WV channels\<close>

definition nc_keys_coefs :: "string \<rightharpoonup> (string \<rightharpoonup> (string \<rightharpoonup> string))" where
  "nc_keys_coefs =
     [''WV'' \<mapsto> [''radiance'' \<mapsto> [''a'' \<mapsto> ''a_wv'', ''b'' \<mapsto> ''b_wv''],
                  ''brightness_temperature'' \<mapsto> [''a'' \<mapsto> ''bt_a_wv'', ''b'' \<mapsto> ''bt_b_wv'']],
      ''IR'' \<mapsto> [''radiance'' \<mapsto> [''a'' \<mapsto> ''a_ir'', ''b'' \<mapsto> ''b_ir''],
                  ''brightness_temperature'' \<mapsto> [''a'' \<mapsto> ''bt_a_ir'', ''b'' \<mapsto> ''bt_b_ir'']]]"

definition get_coefs_ir_wv :: "handler \<Rightarrow> string \<Rightarrow> string \<Rightarrow> error + (fl \<times> fl)" where
  "get_coefs_ir_wv self channel calib =
     and_then (getitem nc_keys_coefs channel) (\<lambda>by_calib.
     and_then (getitem by_calib calib) (\<lambda>keys.
     and_then (getitem keys ''a'') (\<lambda>nc_key_a.
     and_then (getitem keys ''b'') (\<lambda>nc_key_b.
     and_then (getitem (scalars (nc self)) nc_key_a) (\<lambda>a.
     and_then (getitem (scalars (nc self)) nc_key_b) (\<lambda>b.
     Inr (a, b)))))))"

definition ir_wv_counts_to_radiance :: "handler \<Rightarrow> fl dataarray \<Rightarrow> string \<Rightarrow> error + fl dataarray" where
  "ir_wv_counts_to_radiance self counts channel =
     and_then (get_coefs_ir_wv self channel ''radiance'') (\<lambda>(a, b).
     let rad = map_vals (\<lambda>c. fadd a (fmul b c)) counts
     in Inr (where_nan (\<lambda>r. fgt r (Fin 0)) rad))"

definition ir_wv_radiance_to_brightness_temperature ::
  "handler \<Rightarrow> fl dataarray \<Rightarrow> string \<Rightarrow> error + fl dataarray" where
  "ir_wv_radiance_to_brightness_temperature self rad channel =
     and_then (get_coefs_ir_wv self channel ''brightness_temperature'') (\<lambda>(a, b).
     let bt = map_vals (\<lambda>r. fdiv b (fsub (flog r) a)) rad
     in Inr (where_nan (\<lambda>t. fgt t (Fin 0)) bt))"

definition calibrate_ir_wv ::
  "handler \<Rightarrow> fl dataarray \<Rightarrow> string \<Rightarrow> calibration \<Rightarrow> error + fl dataarray" where
  "calibrate_ir_wv self ds channel calib =
     (if calib = Counts then Inr ds
      else if calib \<in> {Radiance, Brightness_temperature} then
        and_then (ir_wv_counts_to_radiance self ds channel) (\<lambda>rad.
        if calib = Radiance then Inr rad
        else ir_wv_radiance_to_brightness_temperature self rad channel)
      else Inl (KeyError (''Invalid calibration: '' @ calibration_name calib)))"

section \<open>Interpolation of the angles between the tiepoints\<close>

text \<open>
  \<open>ds.interp(x=..., y=...)\<close> is xarray's interpolation onto the target coordinates.
  The functions below take it as the parameter \<open>interp\<close>.
\<close>

type_synonym interp = "fl dataarray \<Rightarrow> real list \<Rightarrow> real list \<Rightarrow> error + fl dataarray"

definition interp_tiepoints ::
  "interp \<Rightarrow> fl dataarray \<Rightarrow> real list \<Rightarrow> real list \<Rightarrow> error + fl dataarray" where
  "interp_tiepoints interp ds target_x target_y =
     and_then (coord_size ds ''x'') (\<lambda>size_x.
     and_then (floordiv (length target_x) size_x) (\<lambda>sampling.
     and_then (slice_step target_x sampling) (\<lambda>x.
     and_then (slice_step target_y sampling) (\<lambda>y.
     and_then (assign_coords [(''x'', x), (''y'', y)] ds) (\<lambda>ds.
     interp ds target_x target_y)))))"

definition get_angles :: "interp \<Rightarrow> handler \<Rightarrow> string \<Rightarrow> int \<Rightarrow> error + fl dataarray" where
  "get_angles interp self name resolution =
     and_then (read_dataset self variables name) (\<lambda>angles.
     and_then (getitem (nc_coords (nc self))
                 (if is_high_resol self resolution then ''x'' else ''x_ir_wv'')) (\<lambda>target_x.
     and_then (getitem (nc_coords (nc self))
                 (if is_high_resol self resolution then ''y'' else ''y_ir_wv'')) (\<lambda>target_y.
     interp_tiepoints interp angles target_x target_y)))"

section \<open>Calibration of the VIS channel\<close>

text \<open>
  \<open>_update_refl_attrs\<close> sets two attributes of the reflectance. What is left of it
  without the attributes is its read of \<open>distance_sun_earth\<close>, which raises \<open>KeyError\<close>
  when the file has no such variable.
\<close>

definition update_refl_attrs :: "handler \<Rightarrow> fl dataarray \<Rightarrow> error + fl dataarray" where
  "update_refl_attrs self reflectance =
     and_then (getitem (scalars (nc self)) ''distance_sun_earth'') (\<lambda>d.
     Inr reflectance)"

definition vis_counts_to_radiance :: "handler \<Rightarrow> fl dataarray \<Rightarrow> error + fl dataarray" where
  "vis_counts_to_radiance self counts =
     and_then (getitem (scalars (nc self)) ''years_since_launch'') (\<lambda>years_since_launch.
     and_then (getitem (scalars (nc self)) ''a0_vis'') (\<lambda>a0_vis.
     and_then (getitem (scalars (nc self)) ''a1_vis'') (\<lambda>a1_vis.
     and_then (getitem (scalars (nc self)) ''a2_vis'') (\<lambda>a2_vis.
     let a_cf = fadd (fadd a0_vis (fmul a1_vis years_since_launch))
                     (fmul a2_vis (fmul years_since_launch years_since_launch)) in
     and_then (getitem (scalars (nc self)) ''mean_count_space_vis'') (\<lambda>mean_count_space_vis.
     let rad = map_vals (\<lambda>c. fmul (fsub c mean_count_space_vis) a_cf) counts
     in Inr (where_nan (\<lambda>r. fgt r (Fin 0)) rad))))))"

definition vis_radiance_to_reflectance ::
  "interp \<Rightarrow> handler \<Rightarrow> fl dataarray \<Rightarrow> error + fl dataarray" where
  "vis_radiance_to_reflectance interp self rad =
     and_then (get_angles interp self ''solar_zenith_angle'' HIGH_RESOL) (\<lambda>sza.
     let sza = where_nan (\<lambda>z. flt (fabs z) (Fin 90)) sza;
         cos_sza = map_vals (\<lambda>z. fcos (deg2rad z)) sza in
     and_then (getitem (scalars (nc self)) ''distance_sun_earth'') (\<lambda>d.
     let distance_sun_earth2 = fmul d d in
     and_then (getitem (scalars (nc self)) ''solar_irradiance_vis'') (\<lambda>solar_irradiance_vis.
     and_then (zip_vals (\<lambda>c r. fmul (fdiv (fmul (Fin pi) distance_sun_earth2)
                                          (fmul solar_irradiance_vis c)) r) cos_sza rad) (\<lambda>reflectance.
     Inr (map_vals (\<lambda>v. fmul v (Fin 100)) reflectance)))))"

definition calibrate_vis_easy :: "handler \<Rightarrow> fl dataarray \<Rightarrow> calibration \<Rightarrow> error + fl dataarray" where
  "calibrate_vis_easy self ds calib =
     (if calib = Reflectance then
        update_refl_attrs self (map_vals (\<lambda>v. fmul (Fin 100) v) ds)
      else if calib \<in> {Counts, Radiance} then
        Inl (ValueError (''Cannot calibrate to '' @ calibration_name calib @
                         ''. Easy FCDR provides reflectance only.''))
      else Inl (KeyError (''Invalid calibration: '' @ calibration_name calib)))"

definition calibrate_vis_full ::
  "interp \<Rightarrow> handler \<Rightarrow> fl dataarray \<Rightarrow> calibration \<Rightarrow> error + fl dataarray" where
  "calibrate_vis_full interp self ds calib =
     (if calib = Counts then Inr ds
      else if calib \<in> {Radiance, Reflectance} then
        and_then (vis_counts_to_radiance self ds) (\<lambda>rad.
        if calib = Radiance then Inr rad
        else and_then (vis_radiance_to_reflectance interp self rad) (\<lambda>reflectance.
             update_refl_attrs self reflectance))
      else Inl (KeyError (''Invalid calibration: '' @ calibration_name calib)))"

text \<open>\<open>self._calibrate_vis\<close> is the method of the handler's own class.\<close>

definition calibrate_vis ::
  "interp \<Rightarrow> handler \<Rightarrow> fl dataarray \<Rightarrow> calibration \<Rightarrow> error + fl dataarray" where
  "calibrate_vis interp self ds calib =
     (case variant self of
        Easy \<Rightarrow> calibrate_vis_easy self ds calib
      | Full \<Rightarrow> calibrate_vis_full interp self ds calib)"

text \<open>
  \<open>_calibrate\<close>. Its first statement removes the attribute \<open>ancillary_variables\<close> and
  has no counterpart here.
\<close>

definition calibrate ::
  "interp \<Rightarrow> handler \<Rightarrow> fl dataarray \<Rightarrow> string \<Rightarrow> calibration \<Rightarrow> error + fl dataarray" where
  "calibrate interp self ds channel calib =
     (if channel = ''VIS'' then calibrate_vis interp self ds calib
      else if channel \<in> {''WV'', ''IR''} then calibrate_ir_wv self ds channel calib
      else Inl (KeyError (''Don'' @ [CHR 0x27] @ ''t know how to calibrate channel '' @ channel)))"

section \<open>Quality of the VIS channel\<close>

definition quoted :: "string \<Rightarrow> string" where
  "quoted s = [CHR 0x22] @ s @ [CHR 0x22]"

definition quality_warning :: string where
  "quality_warning =
     ''All pixels of the VIS channel are flagged as '' @ quoted ''use with caution'' @
     ''. Use datasets '' @ quoted ''quality_pixel_bitmask'' @ '' and '' @
     quoted ''data_quality_bitmask'' @ '' to find out why.''"

text \<open>
  \<open>_check_vis_quality\<close> returns nothing and leaves \<open>ds\<close> as it is; its result here is
  the list of the warnings it issues.
\<close>

definition check_vis_quality :: "handler \<Rightarrow> fl dataarray \<Rightarrow> error + string list" where
  "check_vis_quality self ds =
     and_then (read_dataset self bitmasks ''quality_pixel_bitmask'') (\<lambda>mask.
     let use_with_caution = map_vals (\<lambda>m. m AND 2) mask in
     if list_all (list_all (\<lambda>v. v \<noteq> 0)) (vals use_with_caution)
     then Inr [quality_warning]
     else Inr [])"

definition mask_vis :: "handler \<Rightarrow> fl dataarray \<Rightarrow> error + fl dataarray" where
  "mask_vis self ds =
     and_then (read_dataset self bitmasks ''quality_pixel_bitmask'') (\<lambda>mask.
     zip_vals (\<lambda>v m. if m = 0 then v else NaN) ds mask)"

section \<open>Scanline acquisition time\<close>

text \<open>
  \<open>np.nanmean\<close>, and the mean xarray takes by default: the values that are not-a-number
  are skipped, and the mean of no value at all is not-a-number. A timestamp is a
  number here, with not-a-time as not-a-number.
\<close>

definition nanmean :: "fl list \<Rightarrow> fl" where
  "nanmean xs =
     (let present = filter (\<lambda>v. \<not> isnan v) xs in
      if present = [] then NaN
      else fdiv (foldl fadd (Fin 0) present) (Fin (real (length present))))"

text \<open>A one-dimensional labelled array: its dimension, its index if it has one, its values.\<close>

record 'a series =
  s_dim :: string
  index :: "real list option"
  svals :: "'a list"

text \<open>
  \<open>ds.mean(dim=d)\<close> reduces the axis named \<open>d\<close> and keeps the other dimension with
  its coordinate; \<open>ValueError\<close> when \<open>ds\<close> has no dimension \<open>d\<close>.
\<close>

definition mean_dim :: "string \<Rightarrow> fl dataarray \<Rightarrow> error + fl series" where
  "mean_dim d ds =
     (case dims ds of
        [d0, d1] \<Rightarrow>
          if d1 = d then
            Inr \<lparr>s_dim = d0, index = coords ds d0, svals = map nanmean (vals ds)\<rparr>
          else if d0 = d then
            Inr \<lparr>s_dim = d1, index = coords ds d1, svals = map nanmean (transpose (vals ds))\<rparr>
          else Inl (ValueError ''dimension not found'')
      | _ \<Rightarrow> Inl (ValueError ''dimension not found''))"

definition rename_series :: "string \<Rightarrow> string \<Rightarrow> 'a series \<Rightarrow> error + 'a series" where
  "rename_series old new t =
     (if s_dim t = old then Inr (t\<lparr>s_dim := new\<rparr>)
      else Inl (ValueError ''cannot rename: not a variable or dimension''))"

text \<open>\<open>t.coords[d].values\<close>: the index, or the default one \<open>0, ..., n - 1\<close>.\<close>

definition index_values :: "'a series \<Rightarrow> real list" where
  "index_values t = (case index t of Some c \<Rightarrow> c | None \<Rightarrow> map real [0..<length (svals t)])"

text \<open>
  \<open>t.reindex(y=labels)\<close> looks every new label up in the index of \<open>t\<close>; a label that
  is not there gets not-a-number. xarray raises \<open>ValueError\<close> when the index has a
  label twice and when \<open>t\<close> has no index and another size than \<open>labels\<close>.
\<close>

definition reindex :: "real list \<Rightarrow> fl series \<Rightarrow> error + fl series" where
  "reindex labels t =
     (case index t of
        None \<Rightarrow>
          if length labels = length (svals t) then Inr (t\<lparr>index := Some labels\<rparr>)
          else Inl (ValueError ''cannot reindex along a dimension without an index'')
      | Some c \<Rightarrow>
          if \<not> distinct c then Inl (ValueError ''cannot reindex: the index has duplicate values'')
          else Inr (t\<lparr>index := Some labels,
                      svals := map (\<lambda>l. case map_of (zip c (svals t)) l of
                                            Some v \<Rightarrow> v | None \<Rightarrow> NaN) labels\<rparr>))"

definition assign_coords_series :: "real list \<Rightarrow> 'a series \<Rightarrow> error + 'a series" where
  "assign_coords_series c t =
     (if length c = length (svals t) then Inr (t\<lparr>index := Some c\<rparr>)
      else Inl (ValueError ''conflicting sizes for dimension''))"

definition interp_acq_time :: "handler \<Rightarrow> fl dataarray \<Rightarrow> real list \<Rightarrow> error + fl series" where
  "interp_acq_time self time2d target_y =
     and_then (mean_dim ''x_ir_wv'' time2d) (\<lambda>mean.
     and_then (rename_series ''y_ir_wv'' ''y'' mean) (\<lambda>time.
     let y = index_values time in
     if length y < length target_y then
       and_then (floordiv (length target_y) (length y)) (\<lambda>reps.
       let y_rep = concat (map (replicate reps) y) in
       and_then (reindex y_rep time) (\<lambda>time_hires.
       assign_coords_series target_y time_hires))
     else Inr time))"

definition get_acq_time :: "handler \<Rightarrow> int \<Rightarrow> error + fl series" where
  "get_acq_time self resolution =
     and_then (case getitem (variables (nc self)) ''time_ir_wv'' of
                 Inl (KeyError k) \<Rightarrow> getitem (variables (nc self)) ''time''
               | r \<Rightarrow> r) (\<lambda>time2d.
     and_then (getitem (nc_coords (nc self))
                 (if is_high_resol self resolution then ''x'' else ''x_ir_wv'')) (\<lambda>target_y.
     interp_acq_time self time2d target_y))"

section \<open>Channels\<close>

text \<open>
  The assignment \<open>ds['acq_time'] = ('y', self._get_acq_time(resolution))\<close>: the new
  coordinate must have the size of the dimension \<open>y\<close> of \<open>ds\<close>.
\<close>

definition set_acq_time ::
  "handler \<Rightarrow> fl dataarray \<Rightarrow> int \<Rightarrow> error + fl dataarray \<times> fl list" where
  "set_acq_time self ds resolution =
     and_then (get_acq_time self resolution) (\<lambda>acq_time.
     if dim_size ds ''y'' = Some (length (svals acq_time)) then Inr (ds, svals acq_time)
     else Inl (ValueError ''conflicting sizes for dimension''))"

text \<open>
  \<open>_get_channel\<close>. The result is the list of the warnings issued, and then either the
  error raised or the calibrated dataset with the values of its \<open>acq_time\<close> coordinate
  along \<open>y\<close>.
\<close>

definition get_channel ::
  "interp \<Rightarrow> handler \<Rightarrow> string \<Rightarrow> int \<Rightarrow> calibration \<Rightarrow>
     string list \<times> (error + fl dataarray \<times> fl list)" where
  "get_channel interp self name resolution calib =
     (case and_then (read_dataset self variables name)
             (\<lambda>ds. calibrate interp self ds name calib) of
        Inl e \<Rightarrow> ([], Inl e)
      | Inr ds \<Rightarrow>
          if name = ''VIS'' then
            (if mask_bad_quality self then
               ([], and_then (mask_vis self ds) (\<lambda>ds. set_acq_time self ds resolution))
             else
               (case check_vis_quality self ds of
                  Inl e \<Rightarrow> ([], Inl e)
                | Inr warnings \<Rightarrow> (warnings, set_acq_time self ds resolution)))
          else ([], set_acq_time self ds resolution))"

section \<open>Orbital parameters\<close>

definition EQUATOR_RADIUS :: fl where
  "EQUATOR_RADIUS = Fin 6378140"

definition POLE_RADIUS :: fl where
  "POLE_RADIUS = Fin 6356755"

definition ALTITUDE :: fl where
  "ALTITUDE = fsub (Fin 42164000) EQUATOR_RADIUS"

definition MVIRI_FIELD_OF_VIEW :: fl where
  "MVIRI_FIELD_OF_VIEW = Fin 18"

text \<open>
  \<open>_get_ssp\<close>: the only error the two reads can raise is the \<open>KeyError\<close> that the
  \<open>except\<close> clause turns into not-a-number.
\<close>

definition get_ssp :: "handler \<Rightarrow> string \<Rightarrow> fl" where
  "get_ssp self coord =
     (let key_start = ''sub_satellite_'' @ coord @ ''_start'';
          key_end = ''sub_satellite_'' @ coord @ ''_end'' in
      case and_then (getitem (scalars (nc self)) key_start) (\<lambda>v_start.
           and_then (getitem (scalars (nc self)) key_end) (\<lambda>v_end.
           Inr (nanmean [v_start, v_end]))) of
        Inr sub_lonlat \<Rightarrow> sub_lonlat
      | Inl e \<Rightarrow> NaN)"

definition get_ssp_lonlat :: "handler \<Rightarrow> fl \<times> fl" where
  "get_ssp_lonlat self = (get_ssp self ''longitude'', get_ssp self ''latitude'')"

definition get_orbital_parameters :: "handler \<Rightarrow> (string \<rightharpoonup> fl)" where
  "get_orbital_parameters self =
     (let orbital_parameters =
            [''projection_longitude'' \<mapsto> projection_longitude self,
             ''projection_latitude'' \<mapsto> Fin 0,
             ''projection_altitude'' \<mapsto> ALTITUDE];
          (ssp_lon, ssp_lat) = get_ssp_lonlat self in
      if \<not> isnan ssp_lon \<and> \<not> isnan ssp_lat then
        orbital_parameters(''satellite_actual_longitude'' \<mapsto> ssp_lon,
                           ''satellite_actual_latitude'' \<mapsto> ssp_lat)
      else orbital_parameters)"

section \<open>Area definition\<close>

text \<open>The projection parameters \<open>pdict\<close> handed to the area functions.\<close>

record pdict =
  pd_ssp_lon :: fl
  pd_a :: fl
  pd_b :: fl
  pd_h :: fl
  pd_units :: string
  pd_loff :: fl
  pd_coff :: fl
  pd_lfac :: fl
  pd_cfac :: fl
  pd_nlines :: nat
  pd_ncols :: nat
  pd_scandir :: string
  pd_p_id :: string
  pd_a_name :: string
  pd_a_desc :: string

text \<open>
  \<open>sampling_to_lfac_cfac\<close>, \<open>get_area_extent\<close> and \<open>get_area_definition\<close> are
  functions of \<open>satpy.readers._geos_area\<close>; \<open>get_area_def\<close> takes them as parameters.
\<close>

definition get_area_def ::
  "(fl \<Rightarrow> fl) \<Rightarrow> (pdict \<Rightarrow> 'extent) \<Rightarrow> (pdict \<Rightarrow> 'extent \<Rightarrow> 'area) \<Rightarrow>
     handler \<Rightarrow> int \<Rightarrow> error + 'area" where
  "get_area_def sampling_to_lfac_cfac get_area_extent get_area_definition self resolution =
     and_then (if is_high_resol self resolution then
                 and_then (getitem (nc_coords (nc self)) ''y'') (\<lambda>y.
                 Inr (length y, ''geos_mviri_vis''))
               else
                 and_then (getitem (nc_coords (nc self)) ''y_ir_wv'') (\<lambda>y.
                 Inr (length y, ''geos_mviri_ir_wv''))) (\<lambda>(im_size, area_name).
     let loff = Fin (real im_size / 2 + 0.5);
         coff = loff;
         lfac = sampling_to_lfac_cfac (fdiv (deg2rad MVIRI_FIELD_OF_VIEW) (Fin (real im_size)));
         cfac = lfac;
         pdict = \<lparr>pd_ssp_lon = projection_longitude self,
                  pd_a = EQUATOR_RADIUS,
                  pd_b = POLE_RADIUS,
                  pd_h = ALTITUDE,
                  pd_units = ''m'',
                  pd_loff = fsub loff (Fin (real im_size)),
                  pd_coff = coff,
                  pd_lfac = fneg lfac,
                  pd_cfac = fneg cfac,
                  pd_nlines = im_size,
                  pd_ncols = im_size,
                  pd_scandir = ''S2N'',
                  pd_p_id = area_name,
                  pd_a_name = area_name,
                  pd_a_desc = ''MVIRI Geostationary Projection''\<rparr>;
         extent = get_area_extent pdict;
         area_def = get_area_definition pdict extent
     in Inr area_def)"

section \<open>The legal calibration levels\<close>

text \<open>
  The calibration levels that the specification calls legal for a channel and a
  variant: \<open>counts\<close>, \<open>radiance\<close> and \<open>reflectance\<close> for \<open>VIS\<close> under Full, only
  \<open>reflectance\<close> for \<open>VIS\<close> under Easy, and \<open>counts\<close>, \<open>radiance\<close> and
  \<open>brightness_temperature\<close> for \<open>WV\<close> and \<open>IR\<close> under both. This predicate follows the
  specification's words; \<open>calibrate\<close> above follows the code.
\<close>

definition spec_legal :: "string \<Rightarrow> variant \<Rightarrow> calibration \<Rightarrow> bool" where
  "spec_legal channel v level =
     (if channel = ''VIS'' then
        (case v of
           Full \<Rightarrow> level \<in> {Counts, Radiance, Reflectance}
         | Easy \<Rightarrow> level = Reflectance)
      else channel \<in> {''WV'', ''IR''} \<and> level \<in> {Counts, Radiance, Brightness_temperature})"

section \<open>A linear interpolation\<close>

text \<open>
  Modelled from the spec: the interpolation primitive \<open>DataArray.interp\<close> of xarray is
  not part of the reader. The specification describes it as a linear interpolation,
  separable in \<open>x\<close> and \<open>y\<close>, onto the target coordinate vectors, with not-a-number at
  the points outside the range of the coarse coordinates. \<open>interp_linear\<close> is that
  function for an array with the dimensions \<open>(y, x)\<close>; it stands for the parameter
  \<open>interp\<close> wherever a function is run on an example.
\<close>

definition lerp :: "real \<Rightarrow> real \<Rightarrow> fl \<Rightarrow> fl \<Rightarrow> real \<Rightarrow> fl" where
  "lerp x0 x1 v0 v1 t = fadd v0 (fmul (fsub v1 v0) (Fin ((t - x0) / (x1 - x0))))"

fun interp1 :: "real list \<Rightarrow> fl list \<Rightarrow> real \<Rightarrow> fl" where
  "interp1 (x0 # x1 # xs) (v0 # v1 # vs) t =
     (if x0 \<le> t \<and> t \<le> x1 \<and> x0 < x1 then lerp x0 x1 v0 v1 t
      else interp1 (x1 # xs) (v1 # vs) t)"
| "interp1 _ _ t = NaN"

definition interp_linear :: interp where
  "interp_linear ds target_x target_y =
     (if dims ds \<noteq> [''y'', ''x''] then Inl (ValueError ''dimensions other than (y, x)'')
      else
        and_then (getitem (coords ds) ''x'') (\<lambda>x.
        and_then (getitem (coords ds) ''y'') (\<lambda>y.
        let along_x = map (\<lambda>row. map (interp1 x row) target_x) (vals ds);
            columns = transpose along_x
        in Inr \<lparr>dims = [''y'', ''x''],
                coords = (coords ds)(''x'' \<mapsto> target_x, ''y'' \<mapsto> target_y),
                vals = map (\<lambda>t. map (\<lambda>column. interp1 y column t) columns) target_y\<rparr>)))"

section \<open>Example inputs\<close>

text \<open>
  A file with the IR coefficients \<open>a = -10\<close>, \<open>b = 0.5\<close>, \<open>bt_a = -2\<close> and
  \<open>bt_b = 1300\<close>, and the counts \<open>[[100, 200]]\<close>.
\<close>

definition ex_ir :: handler where
  "ex_ir = \<lparr>variant = Full,
     nc = \<lparr>variables = Map.empty,
           scalars = [''a_ir'' \<mapsto> Fin (-10), ''b_ir'' \<mapsto> Fin (1/2),
                      ''bt_a_ir'' \<mapsto> Fin (-2), ''bt_b_ir'' \<mapsto> Fin 1300],
           bitmasks = Map.empty, nc_coords = Map.empty\<rparr>,
     mask_bad_quality = False, projection_longitude = Fin 0\<rparr>"

definition ex_counts :: "fl dataarray" where
  "ex_counts = \<lparr>dims = [''y'', ''x''], coords = Map.empty,
     vals = [[Fin 100, Fin 200]]\<rparr>"

text \<open>The same file read by the handler of the Easy variant.\<close>

definition ex_easy :: handler where
  "ex_easy = ex_ir\<lparr>variant := Easy\<rparr>"

text \<open>A coarse grid of two columns and three rows.\<close>

definition ex_tie :: "fl dataarray" where
  "ex_tie = \<lparr>dims = [''y'', ''x''], coords = Map.empty,
     vals = [[Fin 0, Fin 2], [Fin 4, Fin 6], [Fin 8, Fin 10]]\<rparr>"

text \<open>
  Two files with the satellite position at the start and the end of the scan; in the
  first one the longitude at the start of the scan is not-a-number.
\<close>

definition ex_orbit_nan :: handler where
  "ex_orbit_nan = \<lparr>variant = Easy,
     nc = \<lparr>variables = Map.empty,
           scalars = [''sub_satellite_longitude_start'' \<mapsto> NaN,
                      ''sub_satellite_longitude_end'' \<mapsto> Fin 10,
                      ''sub_satellite_latitude_start'' \<mapsto> Fin 0,
                      ''sub_satellite_latitude_end'' \<mapsto> Fin 0],
           bitmasks = Map.empty, nc_coords = Map.empty\<rparr>,
     mask_bad_quality = False, projection_longitude = Fin 57\<rparr>"

definition ex_orbit :: handler where
  "ex_orbit = \<lparr>variant = Easy,
     nc = \<lparr>variables = Map.empty,
           scalars = [''sub_satellite_longitude_start'' \<mapsto> Fin 9,
                      ''sub_satellite_longitude_end'' \<mapsto> Fin 11,
                      ''sub_satellite_latitude_start'' \<mapsto> Fin (-1),
                      ''sub_satellite_latitude_end'' \<mapsto> Fin 1],
           bitmasks = Map.empty, nc_coords = Map.empty\<rparr>,
     mask_bad_quality = False, projection_longitude = Fin 57\<rparr>"

text \<open>
  A Full file with a VIS image of two by two pixels, the solar zenith angle on a
  tiepoint grid of the same size, a quality bitmask that has the bit of value 2 at
  every pixel, and one IR/WV scanline of timestamps.
\<close>

definition ex_vis_counts :: "fl dataarray" where
  "ex_vis_counts = \<lparr>dims = [''y'', ''x''], coords = Map.empty,
     vals = [[Fin 7, Fin 4], [Fin 9, Fin 5]]\<rparr>"

definition ex_time1 :: "fl dataarray" where
  "ex_time1 = \<lparr>dims = [''y_ir_wv'', ''x_ir_wv''], coords = [''y_ir_wv'' \<mapsto> [0]],
     vals = [[Fin 10]]\<rparr>"

definition ex_vis :: handler where
  "ex_vis = \<lparr>variant = Full,
     nc = \<lparr>variables =
             [''count_vis'' \<mapsto> ex_vis_counts,
              ''solar_zenith_angle'' \<mapsto>
                \<lparr>dims = [''y_tie'', ''x_tie''], coords = Map.empty,
                 vals = [[Fin 90, Fin 30], [Fin 89.999, Fin 120]]\<rparr>,
              ''time_ir_wv'' \<mapsto> ex_time1],
           scalars = [''years_since_launch'' \<mapsto> Fin 2, ''a0_vis'' \<mapsto> Fin 1,
                      ''a1_vis'' \<mapsto> Fin (1/2), ''a2_vis'' \<mapsto> Fin 0,
                      ''mean_count_space_vis'' \<mapsto> Fin 5,
                      ''distance_sun_earth'' \<mapsto> Fin 1,
                      ''solar_irradiance_vis'' \<mapsto> Fin 2],
           bitmasks =
             [''quality_pixel_bitmask'' \<mapsto>
                \<lparr>dims = [''y'', ''x''], coords = Map.empty,
                 vals = [[2, 3], [6, 2]]\<rparr>],
           nc_coords = [''x'' \<mapsto> [0, 1], ''y'' \<mapsto> [0, 1],
                        ''x_ir_wv'' \<mapsto> [0], ''y_ir_wv'' \<mapsto> [0]]\<rparr>,
     mask_bad_quality = False, projection_longitude = Fin 57\<rparr>"

text \<open>A file whose IR/WV grid has three scanlines of two pixels.\<close>

definition ex_time3 :: "fl dataarray" where
  "ex_time3 = \<lparr>dims = [''y_ir_wv'', ''x_ir_wv''], coords = [''y_ir_wv'' \<mapsto> [0, 1, 2]],
     vals = [[Fin 1, Fin 3], [Fin 5, Fin 7], [Fin 9, Fin 11]]\<rparr>"

definition ex_tall :: handler where
  "ex_tall = \<lparr>variant = Full,
     nc = \<lparr>variables = [''time_ir_wv'' \<mapsto> ex_time3],
           scalars = Map.empty,
           bitmasks = Map.empty,
           nc_coords = [''x_ir_wv'' \<mapsto> [0, 1], ''y_ir_wv'' \<mapsto> [0, 1, 2]]\<rparr>,
     mask_bad_quality = False, projection_longitude = Fin 57\<rparr>"

text \<open>
  Three time grids of two scanlines: one whose two scanlines carry the same label,
  one of three pixels a scanline with the labels 0 and 1, and the same one without an
  index along \<open>y_ir_wv\<close>.
\<close>

definition ex_time_dup :: "fl dataarray" where
  "ex_time_dup = \<lparr>dims = [''y_ir_wv'', ''x_ir_wv''], coords = [''y_ir_wv'' \<mapsto> [5, 5]],
     vals = [[Fin 1], [Fin 3]]\<rparr>"

definition ex_time_wide :: "fl dataarray" where
  "ex_time_wide = \<lparr>dims = [''y_ir_wv'', ''x_ir_wv''], coords = [''y_ir_wv'' \<mapsto> [0, 1]],
     vals = [[Fin 1, Fin 2, Fin 3], [Fin 4, Fin 6, Fin 8]]\<rparr>"

definition ex_time_bare :: "fl dataarray" where
  "ex_time_bare = \<lparr>dims = [''y_ir_wv'', ''x_ir_wv''], coords = Map.empty,
     vals = [[Fin 1, Fin 2, Fin 3], [Fin 4, Fin 6, Fin 8]]\<rparr>"

text \<open>
  Two files with a high-resolution image of six columns and four rows and an IR/WV
  grid of three columns and two rows; the time grid has its index in the first file
  and none in the second.
\<close>

definition ex_wide :: handler where
  "ex_wide = \<lparr>variant = Full,
     nc = \<lparr>variables = [''time_ir_wv'' \<mapsto> ex_time_wide],
           scalars = Map.empty,
           bitmasks = Map.empty,
           nc_coords = [''x'' \<mapsto> [10, 11, 12, 13, 14, 15], ''y'' \<mapsto> [20, 21, 22, 23],
                        ''x_ir_wv'' \<mapsto> [0, 1, 2], ''y_ir_wv'' \<mapsto> [0, 1]]\<rparr>,
     mask_bad_quality = False, projection_longitude = Fin 57\<rparr>"

definition ex_bare :: handler where
  "ex_bare = \<lparr>variant = Full,
     nc = \<lparr>variables = [''time_ir_wv'' \<mapsto> ex_time_bare],
           scalars = Map.empty,
           bitmasks = Map.empty,
           nc_coords = [''x'' \<mapsto> [10, 11, 12, 13, 14, 15], ''y'' \<mapsto> [20, 21, 22, 23],
                        ''x_ir_wv'' \<mapsto> [0, 1, 2], ''y_ir_wv'' \<mapsto> [0, 1]]\<rparr>,
     mask_bad_quality = False, projection_longitude = Fin 57\<rparr>"

section \<open>Basic facts\<close>

lemma and_then_simps [simp]:
  "and_then (Inl e) f = Inl e"
  "and_then (Inr x) f = f x"
  by (simp_all add: and_then_def)

lemma NaN_right [simp]:
  "fadd v NaN = NaN"
  "fmul v NaN = NaN"
  "fdiv v NaN = NaN"
  "fgt v NaN = False"
  by (cases v; simp)+

lemma vals_map_vals [simp]: "vals (map_vals f ds) = map (map f) (vals ds)"
  by (simp add: map_vals_def)

lemma vals_where_nan [simp]:
  "vals (where_nan c ds) = map (map (\<lambda>v. if c v then v else NaN)) (vals ds)"
  by (simp add: where_nan_def)

lemma NaN_left [simp]:
  "fmul NaN v = NaN"
  "fdiv NaN v = NaN"
  "fadd NaN v = NaN"
  by simp_all

lemma isnan_iff: "isnan v \<longleftrightarrow> v = NaN"
  by (cases v) simp_all

lemma replicate_2: "replicate 2 a = [a, a]"
  by (simp add: numeral_2_eq_2)

lemma map_sum_InrD:
  "map_sum id f m = Inr v \<Longrightarrow> \<exists>x. m = Inr x \<and> f x = v"
  by (cases m) auto

section \<open>Illegal calibration levels\<close>

text \<open>
  C1. For every channel, variant and calibration level that is not legal for the
  channel and the variant, \<open>_calibrate\<close> fails, whatever the input array is: with the
  \<open>ValueError\<close> "Cannot calibrate to ..." for \<open>counts\<close> and \<open>radiance\<close> of \<open>VIS\<close> under
  Easy, and with a \<open>KeyError\<close> "Invalid calibration: ..." otherwise (a channel that is
  none of the three gets the \<open>KeyError\<close> of the unknown channel). These two exceptions
  are what the specification calls \<open>InvalidCalibrationError\<close>.
\<close>

theorem illegal_calibration_fails:
  "(\<not> spec_legal channel (variant self) level \<longrightarrow>
      calibrate interp self ds channel level =
        Inl (if channel = ''VIS'' \<and> variant self = Easy \<and> level \<in> {Counts, Radiance}
             then ValueError (''Cannot calibrate to '' @ calibration_name level @
                              ''. Easy FCDR provides reflectance only.'')
             else if channel \<in> {''VIS'', ''WV'', ''IR''}
             then KeyError (''Invalid calibration: '' @ calibration_name level)
             else KeyError (''Don'' @ [CHR 0x27] @ ''t know how to calibrate channel '' @ channel))) \<and>
   (variant self = Easy \<and> level \<in> {Counts, Radiance} \<longrightarrow>
      \<not> spec_legal ''VIS'' (variant self) level \<and>
      calibrate interp self ds ''VIS'' level =
        Inl (ValueError (''Cannot calibrate to '' @ calibration_name level @
                         ''. Easy FCDR provides reflectance only.'')))"
  by (cases level; cases "variant self")
     (auto simp: spec_legal_def calibrate_def calibrate_vis_def calibrate_vis_easy_def
        calibrate_vis_full_def calibrate_ir_wv_def Let_def)

theorem illegal_calibration_fails_witness:
  "\<not> spec_legal ''VIS'' (variant ex_easy) Radiance \<and>
   calibrate interp_linear ex_easy ex_counts ''VIS'' Radiance =
     Inl (ValueError ''Cannot calibrate to radiance. Easy FCDR provides reflectance only.'') \<and>
   \<not> spec_legal ''IR'' (variant ex_ir) Reflectance \<and>
   calibrate interp_linear ex_ir ex_counts ''IR'' Reflectance =
     Inl (KeyError ''Invalid calibration: reflectance'')"
  using illegal_calibration_fails [where channel = "''VIS''" and self = ex_easy and level = Radiance
      and interp = interp_linear and ds = ex_counts]
    illegal_calibration_fails [where channel = "''IR''" and self = ex_ir and level = Reflectance
      and interp = interp_linear and ds = ex_counts]
  by (simp add: spec_legal_def ex_easy_def ex_ir_def)

section \<open>Sampling of the tiepoint interpolation\<close>

lemma length_every_nth: "0 < s \<Longrightarrow> length (every_nth s xs) = (length xs + s - 1) div s"
proof (induction s xs rule: every_nth.induct)
  case (1 step)
  then show ?case by simp
next
  case (2 step x xs)
  show ?case
  proof (cases "step - 1 \<le> length xs")
    case True
    with 2 have "length (every_nth step (x # xs)) = 1 + (length xs - (step - 1) + step - 1) div step"
      by simp
    also from True 2(2) have "length xs - (step - 1) + step - 1 = length xs"
      by simp
    also from 2(2) have "1 + length xs div step = (length (x # xs) + step - 1) div step"
      by simp
    finally show ?thesis .
  next
    case False
    with 2 show ?thesis by simp
  qed
qed

lemma samples_of_non_multiple:
  assumes "0 < nx" "0 < n div nx" "\<not> nx dvd n"
  shows "(n + n div nx - 1) div (n div nx) \<noteq> (nx::nat)"
proof -
  define s where "s = n div nx"
  have "0 < n mod nx"
    using assms(3) by (simp add: dvd_eq_mod_eq_0)
  moreover have "n = s * nx + n mod nx"
    by (simp add: s_def)
  ultimately have "s * (nx + 1) \<le> n + s - 1"
    by (simp add: algebra_simps)
  then have "nx + 1 \<le> (n + s - 1) div s"
    using assms(2) by (simp add: s_def less_eq_div_iff_mult_less_eq mult.commute)
  then show ?thesis
    by (simp add: s_def)
qed

lemma samples_of_multiple:
  assumes "nx dvd n" "0 < (n::nat)"
  shows "(n + n div nx - 1) div (n div nx) = nx"
proof -
  from assms obtain k where k: "n = nx * k" "0 < k" "0 < nx"
    by (auto simp: dvd_def)
  then have "n div nx = k"
    by simp
  moreover have "(nx * k + k - 1) div k = nx"
    using k by (intro div_nat_eqI) (simp_all add: algebra_simps)
  ultimately show ?thesis
    using k by simp
qed

lemma interp_tiepoints_eq:
  assumes "coord_size ds ''x'' = Inr nx"
  shows "interp_tiepoints interp ds target_x target_y =
     (if nx = 0 then Inl ZeroDivisionError
      else if length target_x div nx = 0 then Inl (ValueError ''slice step cannot be zero'')
      else and_then (assign_coords [(''x'', every_nth (length target_x div nx) target_x),
                                    (''y'', every_nth (length target_x div nx) target_y)] ds)
             (\<lambda>ds. interp ds target_x target_y))"
  by (simp add: interp_tiepoints_def assms floordiv_def slice_step_def)

lemma assign_coords_x_y:
  "assign_coords [(''x'', x), (''y'', y)] ds =
     (if dim_size ds ''x'' = Some (length x) \<and> dim_size ds ''y'' = Some (length y)
      then Inr (ds\<lparr>coords := (coords ds)(''x'' \<mapsto> x, ''y'' \<mapsto> y)\<rparr>)
      else Inl (ValueError ''conflicting sizes for dimension''))"
  by (auto simp: assign_coords_def fun_eq_iff)

text \<open>
  C2, as amended. Let the coarse grid have \<open>nx\<close> columns and \<open>ny\<close> rows. If the size of
  \<open>target_x\<close> is not an exact multiple of \<open>nx\<close>, \<open>_interp_tiepoints\<close> fails: with
  \<open>ZeroDivisionError\<close> when \<open>nx\<close> is zero, and otherwise with the \<open>ValueError\<close> of the
  zero slice step or of the coordinate assignment. If it is a positive multiple, the
  stride \<open>target_x.size // nx\<close> is applied to \<open>target_y\<close> as well, and the call fails
  with \<open>ValueError\<close> exactly when the number of samples of \<open>target_y\<close> at that stride
  differs from \<open>ny\<close>; otherwise the grid is handed to the interpolation with the
  sampled coordinates, whether or not the size of \<open>target_y\<close> is a multiple of \<open>ny\<close>.
\<close>

theorem tiepoint_sampling_failures:
  assumes cx: "coord_size ds ''x'' = Inr nx"
      and dx: "dim_size ds ''x'' = Some nx"
      and dy: "dim_size ds ''y'' = Some ny"
  shows "(\<not> nx dvd length target_x \<longrightarrow>
      interp_tiepoints interp ds target_x target_y \<in>
        {Inl ZeroDivisionError, Inl (ValueError ''slice step cannot be zero''),
         Inl (ValueError ''conflicting sizes for dimension'')}) \<and>
   (nx dvd length target_x \<and> 0 < length target_x \<longrightarrow>
      (if (length target_y + length target_x div nx - 1) div (length target_x div nx) = ny
       then interp_tiepoints interp ds target_x target_y =
              interp (ds\<lparr>coords := (coords ds)
                        (''x'' \<mapsto> every_nth (length target_x div nx) target_x,
                         ''y'' \<mapsto> every_nth (length target_x div nx) target_y)\<rparr>)
                target_x target_y
       else interp_tiepoints interp ds target_x target_y =
              Inl (ValueError ''conflicting sizes for dimension'')))"
proof (intro conjI impI)
  assume nd: "\<not> nx dvd length target_x"
  show "interp_tiepoints interp ds target_x target_y \<in>
        {Inl ZeroDivisionError, Inl (ValueError ''slice step cannot be zero''),
         Inl (ValueError ''conflicting sizes for dimension'')}"
  proof (cases "nx = 0 \<or> length target_x div nx = 0")
    case True
    then show ?thesis
      by (auto simp: interp_tiepoints_eq [OF cx])
  next
    case False
    then have "length (every_nth (length target_x div nx) target_x) \<noteq> nx"
      using samples_of_non_multiple [of nx "length target_x"] nd
      by (simp add: length_every_nth)
    with False show ?thesis
      by (simp add: interp_tiepoints_eq [OF cx] assign_coords_x_y dx)
  qed
next
  assume m: "nx dvd length target_x \<and> 0 < length target_x"
  then obtain k where k: "length target_x = nx * k"
    by (elim conjE dvdE)
  with m have "0 < nx * k"
    by (simp del: length_greater_0_conv)
  with k have nx: "0 < nx" and s: "0 < length target_x div nx"
    by simp_all
  from m have "length (every_nth (length target_x div nx) target_x) = nx"
    using samples_of_multiple [of nx "length target_x"] s
    by (simp add: length_every_nth)
  with nx s show "if (length target_y + length target_x div nx - 1) div (length target_x div nx) = ny
       then interp_tiepoints interp ds target_x target_y =
              interp (ds\<lparr>coords := (coords ds)
                        (''x'' \<mapsto> every_nth (length target_x div nx) target_x,
                         ''y'' \<mapsto> every_nth (length target_x div nx) target_y)\<rparr>)
                target_x target_y
       else interp_tiepoints interp ds target_x target_y =
              Inl (ValueError ''conflicting sizes for dimension'')"
    by (simp add: interp_tiepoints_eq [OF cx] assign_coords_x_y dx dy length_every_nth)
qed

theorem tiepoint_sampling_counterexample:
  "coord_size ex_tie ''y'' = Inr 3 \<and> \<not> 3 dvd length [0, 1, 2, 3, 4 :: real] \<and>
   map_sum id vals (interp_tiepoints interp_linear ex_tie [0, 1, 2, 3] [0, 1, 2, 3, 4]) =
   Inr [[Fin 0, Fin 1, Fin 2, NaN], [Fin 2, Fin 3, Fin 4, NaN], [Fin 4, Fin 5, Fin 6, NaN],
        [Fin 6, Fin 7, Fin 8, NaN], [Fin 8, Fin 9, Fin 10, NaN]]"
  by code_simp

lemma ex_tie_sizes:
  "coord_size ex_tie ''x'' = Inr 2" "dim_size ex_tie ''x'' = Some 2" "dim_size ex_tie ''y'' = Some 3"
  by code_simp+

lemma ex_tie_strided:
  "every_nth (length [0, 1, 2, 3 :: real] div 2) [0, 1, 2, 3 :: real] = [0, 2]"
  "every_nth (length [0, 1, 2, 3 :: real] div 2) [0, 1, 2, 3, 4 :: real] = [0, 2, 4]"
  "(length [0, 1, 2, 3, 4 :: real] + length [0, 1, 2, 3 :: real] div 2 - 1) div
     (length [0, 1, 2, 3 :: real] div 2) = 3"
  "2 dvd length [0, 1, 2, 3 :: real] \<and> 0 < length [0, 1, 2, 3 :: real]"
  by code_simp+

theorem tiepoint_sampling_failures_witness:
  "coord_size ex_tie ''x'' = Inr 2 \<and> dim_size ex_tie ''x'' = Some 2 \<and> dim_size ex_tie ''y'' = Some 3 \<and>
   \<not> 2 dvd length [0, 1, 2 :: real] \<and>
   interp_tiepoints interp_linear ex_tie [0, 1, 2] [0, 1, 2, 3, 4] \<in>
     {Inl ZeroDivisionError, Inl (ValueError ''slice step cannot be zero''),
      Inl (ValueError ''conflicting sizes for dimension'')} \<and>
   2 dvd length [0, 1, 2, 3 :: real] \<and>
   interp_tiepoints interp_linear ex_tie [0, 1, 2, 3] [0, 1, 2, 3, 4] =
     interp_linear (ex_tie\<lparr>coords := (coords ex_tie)(''x'' \<mapsto> [0, 2], ''y'' \<mapsto> [0, 2, 4])\<rparr>)
       [0, 1, 2, 3] [0, 1, 2, 3, 4]"
proof -
  from tiepoint_sampling_failures [OF ex_tie_sizes, where target_x = "[0, 1, 2]"
      and target_y = "[0, 1, 2, 3, 4]" and interp = interp_linear]
  have a: "interp_tiepoints interp_linear ex_tie [0, 1, 2] [0, 1, 2, 3, 4] \<in>
     {Inl ZeroDivisionError, Inl (ValueError ''slice step cannot be zero''),
      Inl (ValueError ''conflicting sizes for dimension'')}"
    by simp
  from tiepoint_sampling_failures [OF ex_tie_sizes, where target_x = "[0, 1, 2, 3]"
      and target_y = "[0, 1, 2, 3, 4]" and interp = interp_linear]
    ex_tie_strided(4)
  have "if (length [0, 1, 2, 3, 4 :: real] + length [0, 1, 2, 3 :: real] div 2 - 1) div
     (length [0, 1, 2, 3 :: real] div 2) = 3
    then interp_tiepoints interp_linear ex_tie [0, 1, 2, 3] [0, 1, 2, 3, 4] =
     interp_linear (ex_tie\<lparr>coords := (coords ex_tie)
         (''x'' \<mapsto> every_nth (length [0, 1, 2, 3 :: real] div 2) [0, 1, 2, 3],
          ''y'' \<mapsto> every_nth (length [0, 1, 2, 3 :: real] div 2) [0, 1, 2, 3, 4])\<rparr>)
       [0, 1, 2, 3] [0, 1, 2, 3, 4]
    else interp_tiepoints interp_linear ex_tie [0, 1, 2, 3] [0, 1, 2, 3, 4] =
              Inl (ValueError ''conflicting sizes for dimension'')"
    by blast
  then have b: "interp_tiepoints interp_linear ex_tie [0, 1, 2, 3] [0, 1, 2, 3, 4] =
     interp_linear (ex_tie\<lparr>coords := (coords ex_tie)(''x'' \<mapsto> [0, 2], ''y'' \<mapsto> [0, 2, 4])\<rparr>)
       [0, 1, 2, 3] [0, 1, 2, 3, 4]"
    unfolding ex_tie_strided by simp
  from a b ex_tie_sizes show ?thesis
    by simp
qed

section \<open>The fields of the orbital parameters\<close>

lemma nanmean_pair:
  "nanmean [Fin s, Fin e] = Fin ((s + e) / 2)"
  "nanmean [NaN, v] = v"
  "nanmean [v, NaN] = v"
  by (cases v; simp add: nanmean_def signed_inf_def)+

lemma get_ssp_eq:
  "get_ssp self coord =
     (case (scalars (nc self) (''sub_satellite_'' @ coord @ ''_start''),
            scalars (nc self) (''sub_satellite_'' @ coord @ ''_end'')) of
        (Some s, Some e) \<Rightarrow> nanmean [s, e]
      | _ \<Rightarrow> NaN)"
  by (simp add: get_ssp_def getitem_def Let_def split: option.splits)

lemma isnan_nanmean_pair:
  "isnan (nanmean [s, e]) \<longleftrightarrow>
     isnan s \<and> isnan e \<or> s = PInf \<and> e = MInf \<or> s = MInf \<and> e = PInf"
  by (cases s; cases e) (simp_all add: nanmean_def signed_inf_def)

text \<open>
  C3, as amended. \<open>projection_longitude\<close>, \<open>projection_latitude = 0\<close> and
  \<open>projection_altitude\<close> are always in the record. \<open>satellite_actual_longitude\<close> and
  \<open>satellite_actual_latitude\<close> are in the record if and only if neither
  \<open>_get_ssp('longitude')\<close> nor \<open>_get_ssp('latitude')\<close> is not-a-number, and they are
  then these two values; otherwise both are absent, and never not-a-number.
  \<open>_get_ssp\<close> is not-a-number when the start or the end variable is missing, and
  otherwise the mean of the two samples that skips not-a-number: the mean of both when
  both are finite, the other sample when one is not-a-number, and not-a-number only
  when both are or when they are the two opposite infinities.
\<close>

theorem orbital_parameters_fields:
  "get_orbital_parameters self ''projection_longitude'' = Some (projection_longitude self) \<and>
   get_orbital_parameters self ''projection_latitude'' = Some (Fin 0) \<and>
   get_orbital_parameters self ''projection_altitude'' = Some (Fin (42164000 - 6378140)) \<and>
   (if \<not> isnan (get_ssp self ''longitude'') \<and> \<not> isnan (get_ssp self ''latitude'')
    then get_orbital_parameters self ''satellite_actual_longitude'' = Some (get_ssp self ''longitude'') \<and>
         get_orbital_parameters self ''satellite_actual_latitude'' = Some (get_ssp self ''latitude'')
    else get_orbital_parameters self ''satellite_actual_longitude'' = None \<and>
         get_orbital_parameters self ''satellite_actual_latitude'' = None) \<and>
   get_orbital_parameters self ''satellite_actual_longitude'' \<noteq> Some NaN \<and>
   get_orbital_parameters self ''satellite_actual_latitude'' \<noteq> Some NaN \<and>
   get_ssp self coord =
     (case (scalars (nc self) (''sub_satellite_'' @ coord @ ''_start''),
            scalars (nc self) (''sub_satellite_'' @ coord @ ''_end'')) of
        (Some s, Some e) \<Rightarrow> nanmean [s, e]
      | _ \<Rightarrow> NaN) \<and>
   nanmean [Fin s, Fin e] = Fin ((s + e) / 2) \<and>
   nanmean [NaN, v] = v \<and> nanmean [v, NaN] = v \<and>
   isnan (nanmean [p, q]) = (isnan p \<and> isnan q \<or> p = PInf \<and> q = MInf \<or> p = MInf \<and> q = PInf)"
proof -
  have proj:
    "get_orbital_parameters self ''projection_longitude'' = Some (projection_longitude self)"
    "get_orbital_parameters self ''projection_latitude'' = Some (Fin 0)"
    "get_orbital_parameters self ''projection_altitude'' = Some (Fin (42164000 - 6378140))"
    by (simp_all add: get_orbital_parameters_def get_ssp_lonlat_def Let_def ALTITUDE_def
        EQUATOR_RADIUS_def fsub_def)
  have act:
    "if \<not> isnan (get_ssp self ''longitude'') \<and> \<not> isnan (get_ssp self ''latitude'')
     then get_orbital_parameters self ''satellite_actual_longitude'' = Some (get_ssp self ''longitude'') \<and>
          get_orbital_parameters self ''satellite_actual_latitude'' = Some (get_ssp self ''latitude'')
     else get_orbital_parameters self ''satellite_actual_longitude'' = None \<and>
          get_orbital_parameters self ''satellite_actual_latitude'' = None"
    by (simp add: get_orbital_parameters_def get_ssp_lonlat_def Let_def)
  have no_nan:
    "get_orbital_parameters self ''satellite_actual_longitude'' \<noteq> Some NaN"
    "get_orbital_parameters self ''satellite_actual_latitude'' \<noteq> Some NaN"
    using act by (auto simp: isnan_iff split: if_splits)
  show ?thesis
    using proj act no_nan get_ssp_eq [of self coord] nanmean_pair(1) [of s e]
      nanmean_pair(2) [of v] nanmean_pair(3) [of v] isnan_nanmean_pair [of p q]
    by (intro conjI) assumption+
qed

theorem orbital_parameters_counterexample:
  "scalars (nc ex_orbit_nan) ''sub_satellite_longitude_start'' = Some NaN \<and>
   scalars (nc ex_orbit_nan) ''sub_satellite_longitude_end'' = Some (Fin 10) \<and>
   get_orbital_parameters ex_orbit_nan ''satellite_actual_longitude'' = Some (Fin 10) \<and>
   get_orbital_parameters ex_orbit_nan ''satellite_actual_latitude'' = Some (Fin 0)"
  by (simp add: get_orbital_parameters_def get_ssp_lonlat_def get_ssp_def getitem_def
      nanmean_def ex_orbit_nan_def)

theorem orbital_parameters_fields_witness:
  "get_ssp ex_orbit ''longitude'' = Fin 10 \<and>
   get_ssp ex_orbit ''latitude'' = Fin 0 \<and>
   get_orbital_parameters ex_orbit ''projection_longitude'' = Some (Fin 57) \<and>
   get_orbital_parameters ex_orbit ''satellite_actual_longitude'' = Some (Fin 10) \<and>
   get_orbital_parameters ex_orbit ''satellite_actual_latitude'' = Some (Fin 0)"
proof -
  have s: "get_ssp ex_orbit ''longitude'' = Fin 10" "get_ssp ex_orbit ''latitude'' = Fin 0"
    by (simp_all add: get_ssp_def getitem_def nanmean_def ex_orbit_def)
  have p: "projection_longitude ex_orbit = Fin 57"
    by (simp add: ex_orbit_def)
  from orbital_parameters_fields [of ex_orbit "''longitude''" 9 11 NaN] show ?thesis
    by (simp add: s p)
qed

section \<open>Calibration of the IR and WV channels: the formulas\<close>

lemma ex_ir_coefs:
  "get_coefs_ir_wv ex_ir ''IR'' ''radiance'' = Inr (Fin (-10), Fin (1/2))"
  "get_coefs_ir_wv ex_ir ''IR'' ''brightness_temperature'' = Inr (Fin (-2), Fin 1300)"
  by (simp_all add: get_coefs_ir_wv_def nc_keys_coefs_def getitem_def ex_ir_def)

lemma ln_plus_2_pos: "0 < ln (40::real) + 2" "0 < ln (90::real) + 2"
proof -
  have "0 < ln (40::real)" "0 < ln (90::real)"
    by (rule ln_gt_zero, simp)+
  then show "0 < ln (40::real) + 2" "0 < ln (90::real) + 2"
    by linarith+
qed

lemma ex_ir_radiance:
  "calibrate_ir_wv ex_ir ex_counts ''IR'' Radiance = Inr (ex_counts\<lparr>vals := [[Fin 40, Fin 90]]\<rparr>)"
  by (simp add: calibrate_ir_wv_def ir_wv_counts_to_radiance_def ex_ir_coefs ex_counts_def
      map_vals_def where_nan_def)

lemma ex_ir_brightness_temperature:
  "calibrate_ir_wv ex_ir ex_counts ''IR'' Brightness_temperature =
     Inr (ex_counts\<lparr>vals := [[Fin (1300 / (ln 40 + 2)), Fin (1300 / (ln 90 + 2))]]\<rparr>)"
  using ln_plus_2_pos
  by (simp add: calibrate_ir_wv_def ir_wv_counts_to_radiance_def
      ir_wv_radiance_to_brightness_temperature_def ex_ir_coefs ex_counts_def
      map_vals_def where_nan_def fsub_def)

text \<open>
  C4. With the radiance coefficients \<open>a\<close>, \<open>b\<close> and the brightness temperature
  coefficients \<open>a'\<close>, \<open>b'\<close> of the channel, the radiance is \<open>a + b * counts\<close> at every
  pixel and the brightness temperature is \<open>b' / (ln(radiance) - a')\<close> at every pixel,
  each with the values that are not greater than zero replaced by not-a-number. On
  finite numbers these are the real-valued formulas; a radiance that was masked stays
  not-a-number. The IR counts \<open>[[100, 200]]\<close> with \<open>a = -10\<close>, \<open>b = 0.5\<close> give the
  radiance \<open>[[40, 90]]\<close>, and with \<open>bt_a = -2\<close>, \<open>bt_b = 1300\<close> the brightness
  temperature \<open>1300 / (ln(radiance) + 2)\<close>.
\<close>

theorem ir_wv_calibration_formulas:
  assumes rc: "get_coefs_ir_wv self channel ''radiance'' = Inr (a, b)"
      and bc: "get_coefs_ir_wv self channel ''brightness_temperature'' = Inr (a', b')"
  shows "\<exists>rad bt.
     calibrate_ir_wv self counts channel Radiance = Inr rad \<and>
     calibrate_ir_wv self counts channel Brightness_temperature = Inr bt \<and>
     ir_wv_counts_to_radiance self counts channel = Inr rad \<and>
     ir_wv_radiance_to_brightness_temperature self rad channel = Inr bt \<and>
     vals rad = map (map (\<lambda>c. if fgt (fadd a (fmul b c)) (Fin 0)
                               then fadd a (fmul b c) else NaN)) (vals counts) \<and>
     vals bt = map (map (\<lambda>r. if fgt (fdiv b' (fsub (flog r) a')) (Fin 0)
                              then fdiv b' (fsub (flog r) a') else NaN)) (vals rad) \<and>
     (\<forall>i j x y c. a = Fin x \<and> b = Fin y \<and> i < length (vals counts) \<and>
        j < length (vals counts ! i) \<and> vals counts ! i ! j = Fin c \<longrightarrow>
        vals rad ! i ! j = (if 0 < x + y * c then Fin (x + y * c) else NaN)) \<and>
     (\<forall>i j x y r. a' = Fin x \<and> b' = Fin y \<and> i < length (vals rad) \<and>
        j < length (vals rad ! i) \<and> vals rad ! i ! j = Fin r \<and> ln r \<noteq> x \<longrightarrow>
        0 < r \<and>
        vals bt ! i ! j = (if 0 < y / (ln r - x) then Fin (y / (ln r - x)) else NaN)) \<and>
     (\<forall>i j. i < length (vals rad) \<and> j < length (vals rad ! i) \<and> vals rad ! i ! j = NaN \<longrightarrow>
        vals bt ! i ! j = NaN) \<and>
     calibrate_ir_wv ex_ir ex_counts ''IR'' Radiance =
       Inr (ex_counts\<lparr>vals := [[Fin 40, Fin 90]]\<rparr>) \<and>
     calibrate_ir_wv ex_ir ex_counts ''IR'' Brightness_temperature =
       Inr (ex_counts\<lparr>vals := [[Fin (1300 / (ln 40 + 2)), Fin (1300 / (ln 90 + 2))]]\<rparr>)"
proof -
  define rad where
    "rad = where_nan (\<lambda>r. fgt r (Fin 0)) (map_vals (\<lambda>c. fadd a (fmul b c)) counts)"
  define bt where
    "bt = where_nan (\<lambda>t. fgt t (Fin 0)) (map_vals (\<lambda>r. fdiv b' (fsub (flog r) a')) rad)"
  have r1: "ir_wv_counts_to_radiance self counts channel = Inr rad"
    by (simp add: ir_wv_counts_to_radiance_def rc rad_def)
  have r2: "ir_wv_radiance_to_brightness_temperature self rad channel = Inr bt"
    by (simp add: ir_wv_radiance_to_brightness_temperature_def bc bt_def)
  have v1: "vals rad = map (map (\<lambda>c. if fgt (fadd a (fmul b c)) (Fin 0)
                                     then fadd a (fmul b c) else NaN)) (vals counts)"
    by (simp add: rad_def)
  have v2: "vals bt = map (map (\<lambda>r. if fgt (fdiv b' (fsub (flog r) a')) (Fin 0)
                                    then fdiv b' (fsub (flog r) a') else NaN)) (vals rad)"
    by (simp add: bt_def)
  have p1: "vals rad ! i ! j = (if 0 < x + y * c then Fin (x + y * c) else NaN)"
    if "a = Fin x" "b = Fin y" "i < length (vals counts)" "j < length (vals counts ! i)"
      "vals counts ! i ! j = Fin c" for i j x y c
    using that by (simp add: v1)
  have pos: "0 < r"
    if "i < length (vals rad)" "j < length (vals rad ! i)" "vals rad ! i ! j = Fin r" for i j r
  proof -
    from that have "i < length (vals counts)" "j < length (vals counts ! i)"
      by (simp_all add: v1)
    with that(3) show ?thesis
      by (simp add: v1 split: if_splits)
  qed
  have p2: "vals bt ! i ! j = (if 0 < y / (ln r - x) then Fin (y / (ln r - x)) else NaN)"
    if "a' = Fin x" "b' = Fin y" "i < length (vals rad)" "j < length (vals rad ! i)"
      "vals rad ! i ! j = Fin r" "ln r \<noteq> x" for i j x y r
    using that pos[OF that(3,4,5)] by (simp add: v2 fsub_def)
  have p3: "vals bt ! i ! j = NaN"
    if "i < length (vals rad)" "j < length (vals rad ! i)" "vals rad ! i ! j = NaN" for i j
    using that by (simp add: v2 fsub_def)
  have c1: "calibrate_ir_wv self counts channel Radiance = Inr rad"
    by (simp add: calibrate_ir_wv_def r1)
  have c2: "calibrate_ir_wv self counts channel Brightness_temperature = Inr bt"
    by (simp add: calibrate_ir_wv_def r1 r2)
  show ?thesis
  proof (rule exI[of _ rad], rule exI[of _ bt], intro conjI allI impI)
    fix i j x y r
    assume h: "a' = Fin x \<and> b' = Fin y \<and> i < length (vals rad) \<and> j < length (vals rad ! i) \<and>
      vals rad ! i ! j = Fin r \<and> ln r \<noteq> x"
    from h show "0 < r"
      using pos by blast
    from h show "vals bt ! i ! j = (if 0 < y / (ln r - x) then Fin (y / (ln r - x)) else NaN)"
      using p2 by blast
  qed (use r1 r2 v1 v2 p1 p3 c1 c2 ex_ir_radiance ex_ir_brightness_temperature in blast)+
qed

theorem ir_wv_calibration_formulas_witness:
  "get_coefs_ir_wv ex_ir ''IR'' ''radiance'' = Inr (Fin (-10), Fin (1/2)) \<and>
   get_coefs_ir_wv ex_ir ''IR'' ''brightness_temperature'' = Inr (Fin (-2), Fin 1300) \<and>
   (\<exists>rad bt.
      ir_wv_counts_to_radiance ex_ir ex_counts ''IR'' = Inr rad \<and>
      ir_wv_radiance_to_brightness_temperature ex_ir rad ''IR'' = Inr bt \<and>
      vals rad ! 0 ! 1 = Fin 90 \<and>
      vals bt ! 0 ! 1 = Fin (1300 / (ln 90 + 2)))"
proof -
  from ir_wv_calibration_formulas [OF ex_ir_coefs, of ex_counts]
  obtain rad bt where
    r: "ir_wv_counts_to_radiance ex_ir ex_counts ''IR'' = Inr rad"
      "ir_wv_radiance_to_brightness_temperature ex_ir rad ''IR'' = Inr bt" and
    p1: "\<forall>i j x y c. Fin (-10) = Fin x \<and> Fin (1/2) = Fin y \<and> i < length (vals ex_counts) \<and>
        j < length (vals ex_counts ! i) \<and> vals ex_counts ! i ! j = Fin c \<longrightarrow>
        vals rad ! i ! j = (if 0 < x + y * c then Fin (x + y * c) else NaN)" and
    p2: "\<forall>i j x y r. Fin (-2) = Fin x \<and> Fin 1300 = Fin y \<and> i < length (vals rad) \<and>
        j < length (vals rad ! i) \<and> vals rad ! i ! j = Fin r \<and> ln r \<noteq> x \<longrightarrow>
        0 < r \<and>
        vals bt ! i ! j = (if 0 < y / (ln r - x) then Fin (y / (ln r - x)) else NaN)" and
    v1: "vals rad = map (map (\<lambda>c. if fgt (fadd (Fin (-10)) (fmul (Fin (1/2)) c)) (Fin 0)
                               then fadd (Fin (-10)) (fmul (Fin (1/2)) c) else NaN)) (vals ex_counts)"
    by blast
  have a: "vals rad ! 0 ! 1 = Fin 90"
    using p1 [rule_format, of "-10" "1/2" 0 1 200] by (simp add: ex_counts_def)
  have len: "0 < length (vals rad)" "1 < length (vals rad ! 0)"
    by (simp_all add: v1 ex_counts_def)
  have "ln (90::real) \<noteq> -2"
    using ln_plus_2_pos(2) by simp
  with p2 [rule_format, of "-2" 1300 0 1 90] a len
  have "vals bt ! 0 ! 1 = Fin (1300 / (ln 90 + 2))"
    using ln_plus_2_pos(2) by simp
  with r a ex_ir_coefs show ?thesis
    by blast
qed

section \<open>Reflectance of the VIS channel: the mask of the solar zenith angle\<close>

lemma cos_deg_pos:
  assumes "\<bar>a\<bar> < (90::real)"
  shows "0 < cos (a * (pi / 180))"
proof (rule cos_gt_zero_pi)
  have "a * (pi / 180) < 90 * (pi / 180)"
    using assms by (intro mult_strict_right_mono) simp_all
  then show "a * (pi / 180) < pi / 2"
    by simp
  have "- 90 * (pi / 180) < a * (pi / 180)"
    using assms by (intro mult_strict_right_mono) simp_all
  then show "- (pi / 2) < a * (pi / 180)"
    by simp
qed

lemma masked_cos:
  "fcos (deg2rad (if flt (fabs z) (Fin 90) then z else NaN)) =
     (case z of Fin a \<Rightarrow> if \<bar>a\<bar> < 90 then Fin (cos (a * (pi / 180))) else NaN | _ \<Rightarrow> NaN)"
  by (cases z) (simp_all add: flt_def deg2rad_def)

text \<open>
  C5. In the reflectance of VIS under Full, a pixel whose interpolated solar zenith
  angle does not satisfy \<open>|zenith| < 90\<close> is masked before the cosine is taken, and
  its reflectance is not-a-number: so for every angle with \<open>|zenith| \<ge> 90\<close>, and for
  90 degrees itself. A pixel with \<open>|zenith| < 90\<close> keeps its angle, the cosine is
  positive, and the reflectance is \<open>pi * d^2 / (E0 * cos(zenith)) * radiance * 100\<close>;
  so for 89.999 degrees.
\<close>

theorem vis_reflectance_zenith_mask:
  assumes sza: "get_angles interp self ''solar_zenith_angle'' HIGH_RESOL = Inr sza"
      and d: "scalars (nc self) ''distance_sun_earth'' = Some d"
      and e: "scalars (nc self) ''solar_irradiance_vis'' = Some irr"
      and shape: "map length (vals sza) = map length (vals rad)"
  shows "\<exists>reflectance.
     vis_radiance_to_reflectance interp self rad = Inr reflectance \<and>
     (\<forall>i j. i < length (vals rad) \<and> j < length (vals rad ! i) \<longrightarrow>
        (\<not> flt (fabs (vals sza ! i ! j)) (Fin 90) \<longrightarrow> vals reflectance ! i ! j = NaN) \<and>
        (\<forall>a. vals sza ! i ! j = Fin a \<and> 90 \<le> \<bar>a\<bar> \<longrightarrow> vals reflectance ! i ! j = NaN) \<and>
        (vals sza ! i ! j = Fin 90 \<longrightarrow> vals reflectance ! i ! j = NaN) \<and>
        (\<forall>a. vals sza ! i ! j = Fin a \<and> \<bar>a\<bar> < 90 \<longrightarrow>
           0 < cos (a * (pi / 180)) \<and>
           vals reflectance ! i ! j =
             fmul (fmul (fdiv (fmul (Fin pi) (fmul d d)) (fmul irr (Fin (cos (a * (pi / 180))))))
                        (vals rad ! i ! j)) (Fin 100)) \<and>
        (\<forall>dv ev r. vals sza ! i ! j = Fin 89.999 \<and> d = Fin dv \<and> irr = Fin ev \<and> ev \<noteq> 0 \<and>
           vals rad ! i ! j = Fin r \<longrightarrow>
           vals reflectance ! i ! j =
             Fin (pi * (dv * dv) / (ev * cos (89.999 * (pi / 180))) * r * 100)))"
proof -
  define f where "f = (\<lambda>c r. fmul (fdiv (fmul (Fin pi) (fmul d d)) (fmul irr c)) r)"
  define cos_sza where
    "cos_sza = map_vals (\<lambda>z. fcos (deg2rad z)) (where_nan (\<lambda>z. flt (fabs z) (Fin 90)) sza)"
  define z where "z = \<lparr>dims = dims cos_sza, coords = coords cos_sza,
      vals = map2 (map2 f) (vals cos_sza) (vals rad)\<rparr>"
  define reflectance where "reflectance = map_vals (\<lambda>v. fmul v (Fin 100)) z"
  have lc: "map length (vals cos_sza) = map length (vals rad)"
    using shape by (simp add: cos_sza_def comp_def)
  have zv: "zip_vals f cos_sza rad = Inr z"
    by (simp add: zip_vals_def lc z_def)
  have r: "vis_radiance_to_reflectance interp self rad = Inr reflectance"
    by (simp add: vis_radiance_to_reflectance_def sza getitem_def d e Let_def
        cos_sza_def [symmetric] f_def [symmetric] zv reflectance_def)
  have px: "vals reflectance ! i ! j =
      fmul (f (fcos (deg2rad (if flt (fabs (vals sza ! i ! j)) (Fin 90) then vals sza ! i ! j else NaN)))
              (vals rad ! i ! j)) (Fin 100)"
    if ij: "i < length (vals rad)" "j < length (vals rad ! i)" for i j
  proof -
    from shape have l1: "length (vals sza) = length (vals rad)"
      by (rule map_eq_imp_length_eq)
    from shape ij l1 have l2: "length (vals sza ! i) = length (vals rad ! i)"
      by (metis nth_map)
    from ij l1 l2 show ?thesis
      by (simp add: reflectance_def z_def cos_sza_def)
  qed
  note px' = px [unfolded masked_cos]
  show ?thesis
  proof (rule exI [of _ reflectance], intro conjI allI impI)
    show "vis_radiance_to_reflectance interp self rad = Inr reflectance"
      by (rule r)
  next
    fix i j
    assume "i < length (vals rad) \<and> j < length (vals rad ! i)" 
      and "\<not> flt (fabs (vals sza ! i ! j)) (Fin 90)"
    then show "vals reflectance ! i ! j = NaN"
      by (simp add: px f_def deg2rad_def)
  next
    fix i j a
    assume "i < length (vals rad) \<and> j < length (vals rad ! i)"
      and "vals sza ! i ! j = Fin a \<and> 90 \<le> \<bar>a\<bar>"
    then show "vals reflectance ! i ! j = NaN"
      by (simp add: px' f_def)
  next
    fix i j
    assume "i < length (vals rad) \<and> j < length (vals rad ! i)"
      and "vals sza ! i ! j = Fin 90"
    then show "vals reflectance ! i ! j = NaN"
      by (simp add: px' f_def)
  next
    fix i j a
    assume "i < length (vals rad) \<and> j < length (vals rad ! i)"
      and a: "vals sza ! i ! j = Fin a \<and> \<bar>a\<bar> < 90"
    then show "vals reflectance ! i ! j =
             fmul (fmul (fdiv (fmul (Fin pi) (fmul d d)) (fmul irr (Fin (cos (a * (pi / 180))))))
                        (vals rad ! i ! j)) (Fin 100)"
      by (simp add: px' f_def)
    from a show "0 < cos (a * (pi / 180))"
      by (intro cos_deg_pos) simp
  next
    fix i j dv ev r
    assume ij: "i < length (vals rad) \<and> j < length (vals rad ! i)"
      and h: "vals sza ! i ! j = Fin 89.999 \<and> d = Fin dv \<and> irr = Fin ev \<and> ev \<noteq> 0 \<and>
           vals rad ! i ! j = Fin r"
    have "0 < cos (89.999 * (pi / 180))"
      by (rule cos_deg_pos) simp
    with ij h show "vals reflectance ! i ! j =
             Fin (pi * (dv * dv) / (ev * cos (89.999 * (pi / 180))) * r * 100)"
      by (simp add: px' f_def)
  qed
qed

lemma ex_vis_sza:
  "map_sum id vals (get_angles interp_linear ex_vis ''solar_zenith_angle'' HIGH_RESOL) =
     Inr [[Fin 90, Fin 30], [Fin 89.999, Fin 120]]"
  by code_simp

lemma ex_vis_radiance:
  "map_sum id vals (vis_counts_to_radiance ex_vis ex_vis_counts) =
     Inr [[Fin 4, NaN], [Fin 8, NaN]]"
  by code_simp

lemma ex_vis_sun:
  "scalars (nc ex_vis) ''distance_sun_earth'' = Some (Fin 1)"
  "scalars (nc ex_vis) ''solar_irradiance_vis'' = Some (Fin 2)"
  by (simp_all add: ex_vis_def)

theorem vis_reflectance_zenith_mask_witness:
  "\<exists>sza rad reflectance.
     get_angles interp_linear ex_vis ''solar_zenith_angle'' HIGH_RESOL = Inr sza \<and>
     vals sza = [[Fin 90, Fin 30], [Fin 89.999, Fin 120]] \<and>
     vis_counts_to_radiance ex_vis ex_vis_counts = Inr rad \<and>
     vals rad = [[Fin 4, NaN], [Fin 8, NaN]] \<and>
     vis_radiance_to_reflectance interp_linear ex_vis rad = Inr reflectance \<and>
     vals reflectance ! 0 ! 0 = NaN \<and>
     vals reflectance ! 1 ! 0 = Fin (pi * (1 * 1) / (2 * cos (89.999 * (pi / 180))) * 8 * 100)"
proof -
  from map_sum_InrD [OF ex_vis_sza] obtain sza where
    s: "get_angles interp_linear ex_vis ''solar_zenith_angle'' HIGH_RESOL = Inr sza"
      "vals sza = [[Fin 90, Fin 30], [Fin 89.999, Fin 120]]"
    by blast
  from map_sum_InrD [OF ex_vis_radiance] obtain rad where
    r0: "vis_counts_to_radiance ex_vis ex_vis_counts = Inr rad" and
    r: "vals rad = [[Fin 4, NaN], [Fin 8, NaN]]"
    by blast
  have shape: "map length (vals sza) = map length (vals rad)"
    by (simp add: s r)
  from vis_reflectance_zenith_mask [OF s(1) ex_vis_sun shape]
  obtain reflectance where
    v: "vis_radiance_to_reflectance interp_linear ex_vis rad = Inr reflectance" and
    p: "\<forall>i j. i < length (vals rad) \<and> j < length (vals rad ! i) \<longrightarrow>
        (vals sza ! i ! j = Fin 90 \<longrightarrow> vals reflectance ! i ! j = NaN) \<and>
        (\<forall>dv ev r. vals sza ! i ! j = Fin 89.999 \<and> Fin 1 = Fin dv \<and> Fin 2 = Fin ev \<and> ev \<noteq> 0 \<and>
           vals rad ! i ! j = Fin r \<longrightarrow>
           vals reflectance ! i ! j =
             Fin (pi * (dv * dv) / (ev * cos (89.999 * (pi / 180))) * r * 100))"
    by blast
  from p [rule_format, of 0 0] have a: "vals reflectance ! 0 ! 0 = NaN"
    by (simp add: s r)
  from p [rule_format, of 1 0] have "\<forall>dv ev r. vals sza ! 1 ! 0 = Fin 89.999 \<and> Fin 1 = Fin dv \<and>
      Fin 2 = Fin ev \<and> ev \<noteq> 0 \<and> vals rad ! 1 ! 0 = Fin r \<longrightarrow>
      vals reflectance ! 1 ! 0 = Fin (pi * (dv * dv) / (ev * cos (89.999 * (pi / 180))) * r * 100)"
    by (simp add: r)
  from this [rule_format, of 1 2 8]
  have b: "vals reflectance ! 1 ! 0 = Fin (pi * (1 * 1) / (2 * cos (89.999 * (pi / 180))) * 8 * 100)"
    by (simp add: s r)
  from s r0 r v a b show ?thesis
    by blast
qed

section \<open>Upsampling of the acquisition time\<close>

lemma length_concat_replicate: "length (concat (map (replicate k) xs)) = k * length xs"
  by (induction xs) simp_all

lemma length_concat_replicate_comp:
  "length (concat (map (replicate k \<circ> f) xs)) = k * length xs"
  by (induction xs) simp_all

lemma map_concat_replicate:
  "map f (concat (map (replicate k) xs)) = concat (map (replicate k) (map f xs))"
  by (induction xs) simp_all

lemma lookup_own_labels:
  assumes "distinct c" "length c = length vs"
  shows "map (\<lambda>l. case map_of (zip c vs) l of Some v \<Rightarrow> v | None \<Rightarrow> d) c = vs"
proof (rule nth_equalityI)
  show "length (map (\<lambda>l. case map_of (zip c vs) l of Some v \<Rightarrow> v | None \<Rightarrow> d) c) = length vs"
    using assms by simp
next
  fix i
  assume "i < length (map (\<lambda>l. case map_of (zip c vs) l of Some v \<Rightarrow> v | None \<Rightarrow> d) c)"
  then have i: "i < length vs"
    using assms by simp
  with assms have "map_of (zip c vs) (c ! i) = Some (vs ! i)"
    by (simp add: map_of_zip_nth)
  with i assms show "map (\<lambda>l. case map_of (zip c vs) l of Some v \<Rightarrow> v | None \<Rightarrow> d) c ! i = vs ! i"
    by simp
qed

lemma interp_acq_time_eq:
  assumes d: "dims time2d = [''y_ir_wv'', ''x_ir_wv'']"
      and y: "coords time2d ''y_ir_wv'' = Some y"
      and l: "length y = length (vals time2d)"
  shows "interp_acq_time self time2d target_y =
     (let time = map nanmean (vals time2d); n = length time in
      if n < length target_y then
        (if n = 0 then Inl ZeroDivisionError
         else if \<not> distinct y then
           Inl (ValueError ''cannot reindex: the index has duplicate values'')
         else if (length target_y div n) * n \<noteq> length target_y then
           Inl (ValueError ''conflicting sizes for dimension'')
         else Inr \<lparr>s_dim = ''y'', index = Some target_y,
                   svals = concat (map (replicate (length target_y div n)) time)\<rparr>)
      else Inr \<lparr>s_dim = ''y'', index = Some y, svals = time\<rparr>)"
proof -
  define time where "time = map nanmean (vals time2d)"
  have ly: "length y = length time"
    by (simp add: time_def l)
  have m: "mean_dim ''x_ir_wv'' time2d = Inr \<lparr>s_dim = ''y_ir_wv'', index = Some y, svals = time\<rparr>"
    by (simp add: mean_dim_def d y time_def)
  have look: "map (\<lambda>l. case map_of (zip y time) l of Some v \<Rightarrow> v | None \<Rightarrow> NaN)
      (concat (map (replicate k) y)) = concat (map (replicate k) time)" if "distinct y" for k
    using lookup_own_labels [OF that ly, of NaN]
    by (simp add: map_concat_replicate)
  show ?thesis
    unfolding time_def [symmetric] Let_def
    using ly
    by (auto simp: interp_acq_time_def m rename_series_def index_values_def floordiv_def
        reindex_def assign_coords_series_def look length_concat_replicate Let_def)
qed

lemma interp_acq_time_no_index:
  assumes d: "dims time2d = [''y_ir_wv'', ''x_ir_wv'']"
      and y: "coords time2d ''y_ir_wv'' = None"
  shows "interp_acq_time self time2d target_y =
     (let time = map nanmean (vals time2d); n = length time in
      if n < length target_y then
        (if n = 0 then Inl ZeroDivisionError
         else if length target_y div n = 1 then
           Inl (ValueError ''conflicting sizes for dimension'')
         else Inl (ValueError ''cannot reindex along a dimension without an index''))
      else Inr \<lparr>s_dim = ''y'', index = None, svals = time\<rparr>)"
proof -
  define time where "time = map nanmean (vals time2d)"
  have m: "mean_dim ''x_ir_wv'' time2d = Inr \<lparr>s_dim = ''y_ir_wv'', index = None, svals = time\<rparr>"
    by (simp add: mean_dim_def d y time_def)
  show ?thesis
    unfolding time_def [symmetric] Let_def
    by (auto simp: interp_acq_time_def m rename_series_def index_values_def floordiv_def
        reindex_def assign_coords_series_def length_concat_replicate_comp
        length_concat_replicate Let_def)
qed

lemma nanmean_single: "nanmean [t] = t"
  by (cases t) (simp_all add: nanmean_def signed_inf_def)

text \<open>
  C6, as amended. Let the time grid have the dimensions \<open>(y_ir_wv, x_ir_wv)\<close>, with one
  label a scanline if it has an index along \<open>y_ir_wv\<close>, and let the series be the mean
  timestamp of every scanline. When the series is shorter than \<open>target_y\<close>, its length
  divides the size of \<open>target_y\<close> and the grid has an index of distinct labels, every
  timestamp is repeated \<open>target_y.size // series.size\<close> times and the result is
  labelled with \<open>target_y\<close>. When the series is shorter than \<open>target_y\<close> and the
  index has a label twice, or the series is not empty and has no index, the call
  raises \<open>ValueError\<close>: \<open>reindex\<close> looks the repeated labels up in the index. When the
  sizes are equal the series is returned as it is, with or without an index. The
  series \<open>[t0, t1]\<close> with the labels 0 and 1 and a target of size 4 give
  \<open>[t0, t0, t1, t1]\<close>.
\<close>

theorem acq_time_replication:
  assumes d: "dims time2d = [''y_ir_wv'', ''x_ir_wv'']"
      and wf: "\<forall>y. coords time2d ''y_ir_wv'' = Some y \<longrightarrow> length y = length (vals time2d)"
  shows "(length (vals time2d) < length target_y \<and> length (vals time2d) dvd length target_y \<and>
      (\<exists>y. coords time2d ''y_ir_wv'' = Some y \<and> distinct y) \<longrightarrow>
      interp_acq_time self time2d target_y =
        Inr \<lparr>s_dim = ''y'', index = Some target_y,
             svals = concat (map (replicate (length target_y div length (vals time2d)))
                                 (map nanmean (vals time2d)))\<rparr>) \<and>
   (length (vals time2d) < length target_y \<and>
      (\<exists>y. coords time2d ''y_ir_wv'' = Some y \<and> \<not> distinct y) \<longrightarrow>
      interp_acq_time self time2d target_y =
        Inl (ValueError ''cannot reindex: the index has duplicate values'')) \<and>
   (0 < length (vals time2d) \<and> length (vals time2d) < length target_y \<and>
      coords time2d ''y_ir_wv'' = None \<longrightarrow>
      (\<exists>msg. interp_acq_time self time2d target_y = Inl (ValueError msg))) \<and>
   (length target_y = length (vals time2d) \<longrightarrow>
      interp_acq_time self time2d target_y =
        Inr \<lparr>s_dim = ''y'', index = coords time2d ''y_ir_wv'',
             svals = map nanmean (vals time2d)\<rparr>) \<and>
   interp_acq_time self
       \<lparr>dims = [''y_ir_wv'', ''x_ir_wv''], coords = [''y_ir_wv'' \<mapsto> [0, 1]],
        vals = [[t0], [t1]]\<rparr> [0, 1, 2, 3] =
     Inr \<lparr>s_dim = ''y'', index = Some [0, 1, 2, 3], svals = [t0, t0, t1, t1]\<rparr>"
proof (intro conjI impI)
  assume h: "length (vals time2d) < length target_y \<and> length (vals time2d) dvd length target_y \<and>
      (\<exists>y. coords time2d ''y_ir_wv'' = Some y \<and> distinct y)"
  then obtain y where y: "coords time2d ''y_ir_wv'' = Some y" and u: "distinct y"
    by blast
  from wf y have l: "length y = length (vals time2d)"
    by simp
  from h have "length (vals time2d) \<noteq> 0"
    by (metis dvd_0_left_iff less_numeral_extra(3))
  with h u show "interp_acq_time self time2d target_y =
        Inr \<lparr>s_dim = ''y'', index = Some target_y,
             svals = concat (map (replicate (length target_y div length (vals time2d)))
                                 (map nanmean (vals time2d)))\<rparr>"
    by (simp add: interp_acq_time_eq [OF d y l] Let_def)
next
  assume h: "length (vals time2d) < length target_y \<and>
      (\<exists>y. coords time2d ''y_ir_wv'' = Some y \<and> \<not> distinct y)"
  then obtain y where y: "coords time2d ''y_ir_wv'' = Some y" and u: "\<not> distinct y"
    by blast
  from wf y have l: "length y = length (vals time2d)"
    by simp
  from u have "y \<noteq> []"
    by auto
  with l have "vals time2d \<noteq> []"
    by auto
  with h u show "interp_acq_time self time2d target_y =
        Inl (ValueError ''cannot reindex: the index has duplicate values'')"
    by (simp add: interp_acq_time_eq [OF d y l] Let_def)
next
  assume h: "0 < length (vals time2d) \<and> length (vals time2d) < length target_y \<and>
      coords time2d ''y_ir_wv'' = None"
  then show "\<exists>msg. interp_acq_time self time2d target_y = Inl (ValueError msg)"
    by (simp add: interp_acq_time_no_index [OF d] Let_def)
next
  assume e: "length target_y = length (vals time2d)"
  show "interp_acq_time self time2d target_y =
        Inr \<lparr>s_dim = ''y'', index = coords time2d ''y_ir_wv'',
             svals = map nanmean (vals time2d)\<rparr>"
  proof (cases "coords time2d ''y_ir_wv''")
    case None
    with e show ?thesis
      by (simp add: interp_acq_time_no_index [OF d] Let_def)
  next
    case (Some y)
    with wf have l: "length y = length (vals time2d)"
      by simp
    from e Some show ?thesis
      by (simp add: interp_acq_time_eq [OF d Some l] Let_def)
  qed
next
  have "(4::nat) div 2 = 2"
    by simp
  then show "interp_acq_time self
       \<lparr>dims = [''y_ir_wv'', ''x_ir_wv''], coords = [''y_ir_wv'' \<mapsto> [0, 1]],
        vals = [[t0], [t1]]\<rparr> [0, 1, 2, 3] =
     Inr \<lparr>s_dim = ''y'', index = Some [0, 1, 2, 3], svals = [t0, t0, t1, t1]\<rparr>"
    by (subst interp_acq_time_eq [where y = "[0, 1]"])
       (simp_all add: Let_def nanmean_single numeral_2_eq_2 [symmetric] replicate_2)
qed

text \<open>
  Without an index of distinct labels the timestamps are not repeated: two scanlines
  that carry the same label, and a target of size 4.
\<close>

theorem acq_time_replication_counterexample:
  "coords ex_time_dup ''y_ir_wv'' = Some [5, 5] \<and>
   map nanmean (vals ex_time_dup) = [Fin 1, Fin 3] \<and>
   length (map nanmean (vals ex_time_dup)) dvd length [0, 1, 2, 3 :: real] \<and>
   interp_acq_time ex_tall ex_time_dup [0, 1, 2, 3] =
     Inl (ValueError ''cannot reindex: the index has duplicate values'')"
  by code_simp

lemma ex_time3_repeated:
  "concat (map (replicate (length [0, 1, 2, 3, 4, 5 :: real] div length (vals ex_time3)))
               (map nanmean (vals ex_time3))) =
     [Fin 2, Fin 2, Fin 6, Fin 6, Fin 10, Fin 10]"
  by code_simp

lemma ex_time3_means: "map nanmean (vals ex_time3) = [Fin 2, Fin 6, Fin 10]"
  by code_simp

lemma ex_time3_wf:
  "dims ex_time3 = [''y_ir_wv'', ''x_ir_wv'']"
  "\<forall>y. coords ex_time3 ''y_ir_wv'' = Some y \<longrightarrow> length y = length (vals ex_time3)"
  by (simp_all add: ex_time3_def)

lemma ex_time_bare_wf:
  "dims ex_time_bare = [''y_ir_wv'', ''x_ir_wv'']"
  "\<forall>y. coords ex_time_bare ''y_ir_wv'' = Some y \<longrightarrow> length y = length (vals ex_time_bare)"
  by (simp_all add: ex_time_bare_def)

lemma ex_time_dup_wf:
  "dims ex_time_dup = [''y_ir_wv'', ''x_ir_wv'']"
  "\<forall>y. coords ex_time_dup ''y_ir_wv'' = Some y \<longrightarrow> length y = length (vals ex_time_dup)"
  by (simp_all add: ex_time_dup_def)

theorem acq_time_replication_witness:
  "dims ex_time3 = [''y_ir_wv'', ''x_ir_wv''] \<and>
   coords ex_time3 ''y_ir_wv'' = Some [0, 1, 2] \<and>
   interp_acq_time ex_tall ex_time3 [0, 1, 2, 3, 4, 5] =
     Inr \<lparr>s_dim = ''y'', index = Some [0, 1, 2, 3, 4, 5],
          svals = [Fin 2, Fin 2, Fin 6, Fin 6, Fin 10, Fin 10]\<rparr> \<and>
   interp_acq_time ex_tall ex_time3 [7, 8, 9] =
     Inr \<lparr>s_dim = ''y'', index = Some [0, 1, 2], svals = [Fin 2, Fin 6, Fin 10]\<rparr> \<and>
   coords ex_time_dup ''y_ir_wv'' = Some [5, 5] \<and>
   interp_acq_time ex_tall ex_time_dup [0, 1, 2, 3] =
     Inl (ValueError ''cannot reindex: the index has duplicate values'') \<and>
   coords ex_time_bare ''y_ir_wv'' = None \<and>
   (\<exists>msg. interp_acq_time ex_tall ex_time_bare [0, 1, 2, 3] = Inl (ValueError msg))"
proof -
  have "length (vals ex_time3) < length [0, 1, 2, 3, 4, 5 :: real] \<and>
      length (vals ex_time3) dvd length [0, 1, 2, 3, 4, 5 :: real]"
    by code_simp
  moreover have "\<exists>y. coords ex_time3 ''y_ir_wv'' = Some y \<and> distinct y"
    by (simp add: ex_time3_def)
  ultimately have "length (vals ex_time3) < length [0, 1, 2, 3, 4, 5 :: real] \<and>
      length (vals ex_time3) dvd length [0, 1, 2, 3, 4, 5 :: real] \<and>
      (\<exists>y. coords ex_time3 ''y_ir_wv'' = Some y \<and> distinct y)"
    by blast
  with acq_time_replication [OF ex_time3_wf, of "[0, 1, 2, 3, 4, 5]" ex_tall]
  have a: "interp_acq_time ex_tall ex_time3 [0, 1, 2, 3, 4, 5] =
     Inr \<lparr>s_dim = ''y'', index = Some [0, 1, 2, 3, 4, 5],
          svals = [Fin 2, Fin 2, Fin 6, Fin 6, Fin 10, Fin 10]\<rparr>"
    unfolding ex_time3_repeated by blast
  have "length [7, 8, 9 :: real] = length (vals ex_time3)"
    by (simp add: ex_time3_def)
  with acq_time_replication [OF ex_time3_wf, of "[7, 8, 9]" ex_tall]
  have b: "interp_acq_time ex_tall ex_time3 [7, 8, 9] =
     Inr \<lparr>s_dim = ''y'', index = Some [0, 1, 2], svals = [Fin 2, Fin 6, Fin 10]\<rparr>"
    unfolding ex_time3_means by (simp add: ex_time3_def)
  have "length (vals ex_time_dup) < length [0, 1, 2, 3 :: real] \<and>
      (\<exists>y. coords ex_time_dup ''y_ir_wv'' = Some y \<and> \<not> distinct y)"
    by (simp add: ex_time_dup_def)
  with acq_time_replication [OF ex_time_dup_wf, of "[0, 1, 2, 3]" ex_tall]
  have c: "interp_acq_time ex_tall ex_time_dup [0, 1, 2, 3] =
     Inl (ValueError ''cannot reindex: the index has duplicate values'')"
    by blast
  have "0 < length (vals ex_time_bare) \<and> length (vals ex_time_bare) < length [0, 1, 2, 3 :: real] \<and>
      coords ex_time_bare ''y_ir_wv'' = None"
    by (simp add: ex_time_bare_def)
  with acq_time_replication [OF ex_time_bare_wf, of "[0, 1, 2, 3]" ex_tall]
  have e: "\<exists>msg. interp_acq_time ex_tall ex_time_bare [0, 1, 2, 3] = Inl (ValueError msg)"
    by blast
  from a b c e show ?thesis
    by (simp add: ex_time3_def ex_time_dup_def ex_time_bare_def)
qed

section \<open>The quality check of the VIS channel\<close>

lemma and_2_bit: "(m AND 2 \<noteq> 0) = bit m 1" for m :: "8 word"
  using and_exp_eq_0_iff_not_bit [of m 1] by simp

lemma quality_warning_names:
  "sublist ''quality_pixel_bitmask'' quality_warning"
  "sublist ''data_quality_bitmask'' quality_warning"
  unfolding quality_warning_def quoted_def sublist_def
  by (rule exI [of _ "''All pixels of the VIS channel are flagged as '' @ [CHR 0x22] @ ''use with caution'' @ [CHR 0x22] @ ''. Use datasets '' @ [CHR 0x22]"], rule exI [of _ "[CHR 0x22] @ '' and '' @ [CHR 0x22] @ ''data_quality_bitmask'' @ [CHR 0x22] @ '' to find out why.''"], simp)
     (rule exI [of _ "''All pixels of the VIS channel are flagged as '' @ [CHR 0x22] @ ''use with caution'' @ [CHR 0x22] @ ''. Use datasets '' @ [CHR 0x22] @ ''quality_pixel_bitmask'' @ [CHR 0x22] @ '' and '' @ [CHR 0x22]"], rule exI [of _ "[CHR 0x22] @ '' to find out why.''"], simp)

text \<open>
  C7. \<open>_check_vis_quality\<close> issues one warning if every pixel of the quality bitmask
  has the bit of value 2 set, and none otherwise; the warning names the datasets
  \<open>quality_pixel_bitmask\<close> and \<open>data_quality_bitmask\<close>. \<open>_get_channel\<close> issues no
  warning when bad quality pixels are masked or the channel is not \<open>VIS\<close>; when they
  are not masked, the warnings of \<open>VIS\<close> are those of the check, and the dataset
  returned is the calibrated dataset that went into the check.
\<close>

theorem vis_quality_check:
  "(read_dataset self bitmasks ''quality_pixel_bitmask'' = Inr qmask \<longrightarrow>
      check_vis_quality self ds =
        Inr (if \<forall>row \<in> set (vals qmask). \<forall>m \<in> set row. m AND 2 \<noteq> 0
             then [quality_warning] else []) \<and>
      ((\<forall>row \<in> set (vals qmask). \<forall>m \<in> set row. m AND 2 \<noteq> 0) =
       (\<forall>row \<in> set (vals qmask). \<forall>m \<in> set row. bit m 1))) \<and>
   sublist ''quality_pixel_bitmask'' quality_warning \<and>
   sublist ''data_quality_bitmask'' quality_warning \<and>
   (mask_bad_quality self \<or> name \<noteq> ''VIS'' \<longrightarrow>
      fst (get_channel interp self name resolution calib) = []) \<and>
   (\<not> mask_bad_quality self \<and>
    and_then (read_dataset self variables ''VIS'') (\<lambda>ds. calibrate interp self ds ''VIS'' calib) =
      Inr ds \<longrightarrow>
      get_channel interp self ''VIS'' resolution calib =
        (case check_vis_quality self ds of
           Inl e \<Rightarrow> ([], Inl e)
         | Inr warnings \<Rightarrow> (warnings, set_acq_time self ds resolution)) \<and>
      (\<forall>ds' acq_time. snd (get_channel interp self ''VIS'' resolution calib) = Inr (ds', acq_time) \<longrightarrow>
         ds' = ds))"
proof (intro conjI impI allI)
  assume m: "read_dataset self bitmasks ''quality_pixel_bitmask'' = Inr qmask"
  show "check_vis_quality self ds =
        Inr (if \<forall>row \<in> set (vals qmask). \<forall>m \<in> set row. m AND 2 \<noteq> 0
             then [quality_warning] else [])"
    by (simp add: check_vis_quality_def m Let_def list_all_iff)
  show "(\<forall>row \<in> set (vals qmask). \<forall>m \<in> set row. m AND 2 \<noteq> 0) =
       (\<forall>row \<in> set (vals qmask). \<forall>m \<in> set row. bit m 1)"
    by (simp only: and_2_bit)
next
  assume "mask_bad_quality self \<or> name \<noteq> ''VIS''"
  then show "fst (get_channel interp self name resolution calib) = []"
    by (auto simp: get_channel_def split: sum.splits)
next
  assume h: "\<not> mask_bad_quality self \<and>
    and_then (read_dataset self variables ''VIS'') (\<lambda>ds. calibrate interp self ds ''VIS'' calib) =
      Inr ds"
  then show g: "get_channel interp self ''VIS'' resolution calib =
        (case check_vis_quality self ds of
           Inl e \<Rightarrow> ([], Inl e)
         | Inr warnings \<Rightarrow> (warnings, set_acq_time self ds resolution))"
    by (simp add: get_channel_def)
  fix ds' acq_time
  assume "snd (get_channel interp self ''VIS'' resolution calib) = Inr (ds', acq_time)"
  then show "ds' = ds"
    unfolding g
    by (auto simp: set_acq_time_def and_then_def split: sum.splits if_splits)
qed (rule quality_warning_names)+

lemma ex_vis_bitmask:
  "map_sum id vals (read_dataset ex_vis bitmasks ''quality_pixel_bitmask'') = Inr [[2, 3], [6, 2]]"
  by code_simp

lemma ex_vis_calibrated_counts:
  "map_sum id vals (and_then (read_dataset ex_vis variables ''VIS'')
     (\<lambda>ds. calibrate interp_linear ex_vis ds ''VIS'' Counts)) = Inr [[Fin 7, Fin 4], [Fin 9, Fin 5]]"
  by (simp add: read_dataset_def get_nc_key_def nc_keys_def ex_vis_def getitem_def
      ex_vis_counts_def assign_coords_def dim_size_def sizes_def calibrate_def calibrate_vis_def
      calibrate_vis_full_def)

theorem vis_quality_check_witness:
  "check_vis_quality ex_vis ex_vis_counts = Inr [quality_warning] \<and>
   fst (get_channel interp_linear ex_vis ''VIS'' 2250 Counts) = [quality_warning] \<and>
   fst (get_channel interp_linear (ex_vis\<lparr>mask_bad_quality := True\<rparr>) ''VIS'' 2250 Counts) = []"
proof -
  from map_sum_InrD [OF ex_vis_bitmask] obtain qmask where
    q: "read_dataset ex_vis bitmasks ''quality_pixel_bitmask'' = Inr qmask"
      "vals qmask = [[2, 3], [6, 2]]"
    by blast
  have all: "\<forall>row \<in> set (vals qmask). \<forall>m \<in> set row. m AND 2 \<noteq> 0"
    by (simp add: q(2))
  have c: "check_vis_quality ex_vis ds = Inr [quality_warning]" for ds
    using vis_quality_check [where self = ex_vis and qmask = qmask and ds = ds] q(1) all
    by simp
  from map_sum_InrD [OF ex_vis_calibrated_counts] obtain ds where
    d: "and_then (read_dataset ex_vis variables ''VIS'')
          (\<lambda>ds. calibrate interp_linear ex_vis ds ''VIS'' Counts) = Inr ds"
    by blast
  have m: "\<not> mask_bad_quality ex_vis"
    by (simp add: ex_vis_def)
  from vis_quality_check [where self = ex_vis and interp = interp_linear and calib = Counts
      and ds = ds and resolution = 2250] m d
  have "get_channel interp_linear ex_vis ''VIS'' 2250 Counts =
        (case check_vis_quality ex_vis ds of
           Inl e \<Rightarrow> ([], Inl e)
         | Inr warnings \<Rightarrow> (warnings, set_acq_time ex_vis ds 2250))"
    by blast
  then have g: "fst (get_channel interp_linear ex_vis ''VIS'' 2250 Counts) = [quality_warning]"
    by (simp add: c)
  from vis_quality_check [where self = "ex_vis\<lparr>mask_bad_quality := True\<rparr>"
      and name = "''VIS''" and interp = interp_linear and resolution = 2250 and calib = Counts]
  have "fst (get_channel interp_linear (ex_vis\<lparr>mask_bad_quality := True\<rparr>) ''VIS'' 2250 Counts) = []"
    by simp
  with c g show ?thesis
    by simp
qed

section \<open>The parameters of the area definition\<close>

text \<open>
  C9. For an image of \<open>im_size\<close> lines, the projection parameters have the column
  offset \<open>im_size / 2 + 0.5\<close>, the line offset \<open>im_size / 2 + 0.5 - im_size\<close>, both scale
  factors the negated conversion of \<open>deg2rad(18.0) / im_size\<close>, the equatorial radius
  6378140.0, the polar radius 6356755.0, the altitude 42164000.0 - 6378140.0 and the
  scan direction \<open>S2N\<close>.
\<close>

theorem area_def_parameters:
  assumes "nc_coords (nc self) (if is_high_resol self resolution then ''y'' else ''y_ir_wv'') = Some y"
  shows "get_area_def sampling_to_lfac_cfac get_area_extent get_area_definition self resolution =
     (let im_size = length y;
          area_name = (if resolution = 2250 then ''geos_mviri_vis'' else ''geos_mviri_ir_wv'');
          pdict = \<lparr>pd_ssp_lon = projection_longitude self,
                   pd_a = Fin 6378140,
                   pd_b = Fin 6356755,
                   pd_h = Fin (42164000 - 6378140),
                   pd_units = ''m'',
                   pd_loff = Fin ((real im_size / 2 + 0.5) - real im_size),
                   pd_coff = Fin (real im_size / 2 + 0.5),
                   pd_lfac = fneg (sampling_to_lfac_cfac (fdiv (Fin (18 * (pi / 180))) (Fin (real im_size)))),
                   pd_cfac = fneg (sampling_to_lfac_cfac (fdiv (Fin (18 * (pi / 180))) (Fin (real im_size)))),
                   pd_nlines = im_size,
                   pd_ncols = im_size,
                   pd_scandir = ''S2N'',
                   pd_p_id = area_name,
                   pd_a_name = area_name,
                   pd_a_desc = ''MVIRI Geostationary Projection''\<rparr>
      in Inr (get_area_definition pdict (get_area_extent pdict)))"
  using assms
  by (simp add: get_area_def_def getitem_def is_high_resol_def HIGH_RESOL_def Let_def
      EQUATOR_RADIUS_def POLE_RADIUS_def ALTITUDE_def MVIRI_FIELD_OF_VIEW_def deg2rad_def fsub_def
      split: if_splits)

theorem area_def_parameters_witness:
  "nc_coords (nc ex_vis) ''y'' = Some [0, 1] \<and>
   get_area_def (\<lambda>sampling. sampling) (\<lambda>pdict. ()) (\<lambda>pdict extent. pdict) ex_vis 2250 =
     Inr \<lparr>pd_ssp_lon = Fin 57, pd_a = Fin 6378140, pd_b = Fin 6356755, pd_h = Fin 35785860,
          pd_units = ''m'', pd_loff = Fin (- 1 / 2), pd_coff = Fin (3 / 2),
          pd_lfac = Fin (- (18 * (pi / 180) / 2)), pd_cfac = Fin (- (18 * (pi / 180) / 2)),
          pd_nlines = 2, pd_ncols = 2, pd_scandir = ''S2N'', pd_p_id = ''geos_mviri_vis'',
          pd_a_name = ''geos_mviri_vis'', pd_a_desc = ''MVIRI Geostationary Projection''\<rparr>"
proof -
  have y: "nc_coords (nc ex_vis) (if is_high_resol ex_vis 2250 then ''y'' else ''y_ir_wv'') = Some [0, 1]"
    by (simp add: ex_vis_def is_high_resol_def HIGH_RESOL_def)
  from area_def_parameters [OF y, where sampling_to_lfac_cfac = "\<lambda>sampling. sampling"
      and get_area_extent = "\<lambda>pdict. ()" and get_area_definition = "\<lambda>pdict extent. pdict"] y
  show ?thesis
    by (simp add: Let_def ex_vis_def is_high_resol_def HIGH_RESOL_def)
qed

section \<open>The target of the acquisition time\<close>

text \<open>
  C10, as amended. \<open>_get_acq_time\<close> upsamples the scanline timestamps to the \<open>x\<close>
  coordinate of the requested resolution (\<open>x\<close> or \<open>x_ir_wv\<close>); the \<open>y\<close> coordinates of
  the file play no part. Let the time grid (\<open>time_ir_wv\<close>, or \<open>time\<close> in a file without
  it) have the dimensions \<open>(y_ir_wv, x_ir_wv)\<close> and \<open>n\<close> scanlines, with \<open>n\<close> labels if
  it has an index along \<open>y_ir_wv\<close>. Whenever a series is returned, its length is the
  larger of \<open>n\<close> and the size of that \<open>x\<close> coordinate. When \<open>n\<close> is smaller than the
  size of the \<open>x\<close> coordinate, a series is returned if and only if the grid has an
  index of distinct labels and \<open>n\<close> divides that size; the series is then the mean
  timestamp of every scanline repeated \<open>size // n\<close> times, labelled with the \<open>x\<close>
  coordinate. When \<open>n\<close> is at least the size of the \<open>x\<close> coordinate, the series
  returned is the one of the time grid itself, one timestamp for each of its
  scanlines.
\<close>

theorem acq_time_target:
  assumes t: "variables (nc self) ''time_ir_wv'' = Some time2d \<or>
              variables (nc self) ''time_ir_wv'' = None \<and>
              variables (nc self) ''time'' = Some time2d"
      and x: "nc_coords (nc self) (if resolution = 2250 then ''x'' else ''x_ir_wv'') = Some target_x"
      and d: "dims time2d = [''y_ir_wv'', ''x_ir_wv'']"
      and wf: "\<forall>y. coords time2d ''y_ir_wv'' = Some y \<longrightarrow> length y = length (vals time2d)"
  shows "get_acq_time self resolution = interp_acq_time self time2d target_x \<and>
   (\<forall>cy cy'. get_acq_time
       (self\<lparr>nc := (nc self)\<lparr>nc_coords := (nc_coords (nc self))(''y'' := cy, ''y_ir_wv'' := cy')\<rparr>\<rparr>)
       resolution = get_acq_time self resolution) \<and>
   (\<forall>time. get_acq_time self resolution = Inr time \<longrightarrow>
      length (svals time) = max (length (vals time2d)) (length target_x)) \<and>
   (length (vals time2d) < length target_x \<longrightarrow>
      ((\<exists>time. get_acq_time self resolution = Inr time) \<longleftrightarrow>
       (\<exists>y. coords time2d ''y_ir_wv'' = Some y \<and> distinct y) \<and>
       length (vals time2d) dvd length target_x) \<and>
      (\<forall>time. get_acq_time self resolution = Inr time \<longrightarrow>
         time = \<lparr>s_dim = ''y'', index = Some target_x,
                 svals = concat (map (replicate (length target_x div length (vals time2d)))
                                     (map nanmean (vals time2d)))\<rparr>)) \<and>
   (length target_x \<le> length (vals time2d) \<longrightarrow>
      get_acq_time self resolution =
        Inr \<lparr>s_dim = ''y'', index = coords time2d ''y_ir_wv'',
             svals = map nanmean (vals time2d)\<rparr>)"
proof -
  define n where "n = length (vals time2d)"
  have g: "get_acq_time self resolution = interp_acq_time self time2d target_x"
    using t x by (auto simp: get_acq_time_def getitem_def is_high_resol_def HIGH_RESOL_def)
  have indep: "get_acq_time
       (self\<lparr>nc := (nc self)\<lparr>nc_coords := (nc_coords (nc self))(''y'' := cy, ''y_ir_wv'' := cy')\<rparr>\<rparr>)
       resolution = get_acq_time self resolution" for cy cy'
    by (simp add: get_acq_time_def getitem_def is_high_resol_def HIGH_RESOL_def
        interp_acq_time_def cong: sum.case_cong error.case_cong)
  have dv: "(length target_x div n) * n = length target_x \<longleftrightarrow> n dvd length target_x"
    by (metis dvd_div_mult_self dvd_triv_right)
  have all: "(\<forall>time. get_acq_time self resolution = Inr time \<longrightarrow>
      length (svals time) = max n (length target_x)) \<and>
   (n < length target_x \<longrightarrow>
      ((\<exists>time. get_acq_time self resolution = Inr time) \<longleftrightarrow>
       (\<exists>y. coords time2d ''y_ir_wv'' = Some y \<and> distinct y) \<and> n dvd length target_x) \<and>
      (\<forall>time. get_acq_time self resolution = Inr time \<longrightarrow>
         time = \<lparr>s_dim = ''y'', index = Some target_x,
                 svals = concat (map (replicate (length target_x div n))
                                     (map nanmean (vals time2d)))\<rparr>)) \<and>
   (length target_x \<le> n \<longrightarrow>
      get_acq_time self resolution =
        Inr \<lparr>s_dim = ''y'', index = coords time2d ''y_ir_wv'',
             svals = map nanmean (vals time2d)\<rparr>)"
  proof (cases "coords time2d ''y_ir_wv''")
    case None
    show ?thesis
      unfolding g interp_acq_time_no_index [OF d None, of self target_x] n_def
      by (auto simp: Let_def None)
  next
    case (Some y)
    with wf have l: "length y = length (vals time2d)"
      by simp
    have z: "n = 0 \<Longrightarrow> n < length target_x \<Longrightarrow> \<not> n dvd length target_x"
      by auto
    show ?thesis
      unfolding g interp_acq_time_eq [OF d Some l, of self target_x] n_def [symmetric]
      using dv z
      by (auto simp: Let_def Some n_def [symmetric] length_concat_replicate_comp
          length_concat_replicate)
  qed
  show ?thesis
    using g indep all unfolding n_def by blast
qed

text \<open>
  The length is not always the size of the \<open>x\<close> coordinate: three scanlines and an
  \<open>x\<close> coordinate of size 2 give three timestamps, one a scanline, on an image that is
  not square.
\<close>

theorem acq_time_target_counterexample:
  "nc_coords (nc ex_tall) ''x_ir_wv'' = Some [0, 1] \<and>
   get_acq_time ex_tall 4500 =
     Inr \<lparr>s_dim = ''y'', index = Some [0, 1, 2], svals = [Fin 2, Fin 6, Fin 10]\<rparr>"
  by code_simp

lemma ex_wide_facts:
  "variables (nc ex_wide) ''time_ir_wv'' = Some ex_time_wide \<or>
   variables (nc ex_wide) ''time_ir_wv'' = None \<and> variables (nc ex_wide) ''time'' = Some ex_time_wide"
  "nc_coords (nc ex_wide) (if (2250::int) = 2250 then ''x'' else ''x_ir_wv'') =
     Some [10, 11, 12, 13, 14, 15]"
  "dims ex_time_wide = [''y_ir_wv'', ''x_ir_wv'']"
  "\<forall>y. coords ex_time_wide ''y_ir_wv'' = Some y \<longrightarrow> length y = length (vals ex_time_wide)"
  by (simp_all add: ex_time_wide_def ex_wide_def)

lemma ex_bare_facts:
  "variables (nc ex_bare) ''time_ir_wv'' = Some ex_time_bare \<or>
   variables (nc ex_bare) ''time_ir_wv'' = None \<and> variables (nc ex_bare) ''time'' = Some ex_time_bare"
  "nc_coords (nc ex_bare) (if (2250::int) = 2250 then ''x'' else ''x_ir_wv'') =
     Some [10, 11, 12, 13, 14, 15]"
  "dims ex_time_bare = [''y_ir_wv'', ''x_ir_wv'']"
  "\<forall>y. coords ex_time_bare ''y_ir_wv'' = Some y \<longrightarrow> length y = length (vals ex_time_bare)"
  by (simp_all add: ex_time_bare_def ex_bare_def)

lemma ex_time_bare_sizes:
  "length (vals ex_time_bare) < length [10, 11, 12, 13, 14, 15 :: real]"
  by code_simp

lemma ex_time_wide_repeated:
  "concat (map (replicate (length [10, 11, 12, 13, 14, 15 :: real] div length (vals ex_time_wide)))
               (map nanmean (vals ex_time_wide))) =
     [Fin 2, Fin 2, Fin 2, Fin 6, Fin 6, Fin 6]"
  by code_simp

lemma ex_time_wide_sizes:
  "length (vals ex_time_wide) < length [10, 11, 12, 13, 14, 15 :: real]"
  "length (vals ex_time_wide) dvd length [10, 11, 12, 13, 14, 15 :: real]"
  by code_simp+

theorem acq_time_target_witness:
  "variables (nc ex_wide) ''time_ir_wv'' = Some ex_time_wide \<and>
   length (vals ex_time_wide) = 2 \<and>
   nc_coords (nc ex_wide) ''x'' = Some [10, 11, 12, 13, 14, 15] \<and>
   nc_coords (nc ex_wide) ''y'' = Some [20, 21, 22, 23] \<and>
   get_acq_time ex_wide 2250 =
     Inr \<lparr>s_dim = ''y'', index = Some [10, 11, 12, 13, 14, 15],
          svals = [Fin 2, Fin 2, Fin 2, Fin 6, Fin 6, Fin 6]\<rparr> \<and>
   variables (nc ex_bare) ''time_ir_wv'' = Some ex_time_bare \<and>
   coords ex_time_bare ''y_ir_wv'' = None \<and>
   nc_coords (nc ex_bare) ''x'' = Some [10, 11, 12, 13, 14, 15] \<and>
   \<not> (\<exists>time. get_acq_time ex_bare 2250 = Inr time)"
proof -
  note a = acq_time_target [OF ex_wide_facts]
  have i: "\<exists>y. coords ex_time_wide ''y_ir_wv'' = Some y \<and> distinct y"
    by (simp add: ex_time_wide_def)
  from a ex_time_wide_sizes i obtain time where r: "get_acq_time ex_wide 2250 = Inr time"
    by blast
  with a ex_time_wide_sizes(1)
  have "time = \<lparr>s_dim = ''y'', index = Some [10, 11, 12, 13, 14, 15],
      svals = concat (map (replicate (length [10, 11, 12, 13, 14, 15 :: real] div
                                      length (vals ex_time_wide)))
                          (map nanmean (vals ex_time_wide)))\<rparr>"
    by blast
  with r have "get_acq_time ex_wide 2250 =
     Inr \<lparr>s_dim = ''y'', index = Some [10, 11, 12, 13, 14, 15],
          svals = [Fin 2, Fin 2, Fin 2, Fin 6, Fin 6, Fin 6]\<rparr>"
    unfolding ex_time_wide_repeated by simp
  moreover have "\<not> (\<exists>y. coords ex_time_bare ''y_ir_wv'' = Some y \<and> distinct y)"
    by (simp add: ex_time_bare_def)
  with acq_time_target [OF ex_bare_facts] ex_time_bare_sizes
  have "\<not> (\<exists>time. get_acq_time ex_bare 2250 = Inr time)"
    by blast
  ultimately show ?thesis
    by (simp add: ex_wide_def ex_time_wide_def ex_bare_def ex_time_bare_def)
qed

end
